theory Spec2Isabelle
  imports
    Complex_Main
    "HOL-Library.Multiset"
    "HOL-Library.Sublist"
    "HOL-Library.Char_ord"
    "HOL-Library.List_Lexorder"
begin

section \<open>Copilot metrics agent: aggregation, bucketing and dispatch\<close>

text \<open>
  The development embeds the aggregation helpers of the dashboard server
  (\<^verbatim>\<open>src/unnamed/part_001\<close>) and of the MCP server (\<^verbatim>\<open>src/mcp/index.js\<close>).
  Conventions of the embedding:
  \<^item> a JavaScript number that holds a count is an \<open>int\<close>; a property that may be
    missing is an \<open>option\<close>, and \<^verbatim>\<open>x || 0\<close> reads it with default 0;
  \<^item> a plain object used as a dictionary is an association list in insertion order,
    which is the order \<^verbatim>\<open>Object.entries\<close> yields for keys that are neither array indices
    nor names of \<^verbatim>\<open>Object.prototype\<close>;
  \<^item> \<^verbatim>\<open>Array.prototype.sort\<close> with a comparator is a stable insertion sort;
  \<^item> a quotient of counts is an exact rational in place of an IEEE double;
  \<^item> the module variable \<^verbatim>\<open>records\<close> is the argument \<open>records\<close> of every function
    that reads it;
  \<^item> a thrown \<^verbatim>\<open>TypeError\<close> is the left injection of a sum type.
\<close>

subsection \<open>Sorting with a comparator\<close>

text \<open>
  \<^verbatim>\<open>arr.sort(cmp)\<close>: the sort is stable, and \<^verbatim>\<open>cmp(a, b) <= 0\<close> keeps \<open>a\<close> in front
  of \<open>b\<close>. Folding from the right inserts every element in front of the equal
  elements that followed it in the input.
\<close>

fun js_insert :: "('a \<Rightarrow> 'a \<Rightarrow> int) \<Rightarrow> 'a \<Rightarrow> 'a list \<Rightarrow> 'a list" where
  "js_insert cmp x [] = [x]"
| "js_insert cmp x (y # ys) =
     (if cmp x y \<le> 0 then x # y # ys else y # js_insert cmp x ys)"

definition js_sort :: "('a \<Rightarrow> 'a \<Rightarrow> int) \<Rightarrow> 'a list \<Rightarrow> 'a list" where
  "js_sort cmp xs = foldr (js_insert cmp) xs []"

subsection \<open>Small pieces of JavaScript\<close>

text \<open>\<^verbatim>\<open>x || 0\<close> on a numeric property that may be missing, and \<^verbatim>\<open>xs || []\<close>.\<close>

definition or_zero :: "int option \<Rightarrow> int" where
  "or_zero x = (case x of None \<Rightarrow> 0 | Some v \<Rightarrow> v)"

definition or_empty :: "'a list option \<Rightarrow> 'a list" where
  "or_empty xs = (case xs of None \<Rightarrow> [] | Some ys \<Rightarrow> ys)"

text \<open>
  \<^verbatim>\<open>arr.slice(start, end)\<close> for \<open>0 \<le> start\<close> and \<open>0 \<le> end\<close>: the elements at the indices
  \<open>start \<le> i < end\<close> that exist.
\<close>

definition slice :: "nat \<Rightarrow> nat \<Rightarrow> 'a list \<Rightarrow> 'a list" where
  "slice start end xs = take (end - start) (drop start xs)"

text \<open>
  \<^verbatim>\<open>Math.round(a / b)\<close> for integers \<open>a\<close> and \<open>b > 0\<close>, in exact arithmetic:
  \<open>\<lfloor>a / b + 1/2\<rfloor>\<close> (a tie goes up).
\<close>

definition Math_round_div :: "int \<Rightarrow> int \<Rightarrow> int" where
  "Math_round_div a b = (2 * a + b) div (2 * b)"

text \<open>\<^verbatim>\<open>new Set(xs)\<close>, read back in insertion order: the first occurrences.\<close>

definition js_Set :: "'a list \<Rightarrow> 'a list" where
  "js_Set xs = foldl (\<lambda>seen x. if x \<in> set seen then seen else seen @ [x]) [] xs"

text \<open>
  The idiom \<^verbatim>\<open>if (!obj[k]) obj[k] = z; obj[k] = f(obj[k])\<close> on a dictionary object: a key
  that is present is updated in place, a new key goes to the end.
\<close>

fun dict_upd :: "'k \<Rightarrow> 'v \<Rightarrow> ('v \<Rightarrow> 'v) \<Rightarrow> ('k \<times> 'v) list \<Rightarrow> ('k \<times> 'v) list" where
  "dict_upd k z f [] = [(k, f z)]"
| "dict_upd k z f ((k', v) # kvs) =
     (if k' = k then (k', f v) # kvs else (k', v) # dict_upd k z f kvs)"

subsection \<open>Data model\<close>

text \<open>
  One entry of a \<^verbatim>\<open>totals_by_*\<close> array. Each array carries the category keys it is
  named after; the code never reads a key the array does not carry.
\<close>

record entry =
  feature :: string
  language :: string
  model :: string
  ide :: string
  user_initiated_interaction_count :: "int option"
  code_generation_activity_count :: "int option"
  code_acceptance_activity_count :: "int option"
  loc_added_sum :: "int option"
  loc_deleted_sum :: "int option"
  loc_suggested_to_add_sum :: "int option"

text \<open>
  One daily record. The counters of the record itself carry the prefix \<open>r_\<close>, as the
  entries have properties of the same names.
\<close>

record daily =
  day :: string
  daily_active_users :: "int option"
  r_user_initiated_interaction_count :: "int option"
  r_code_generation_activity_count :: "int option"
  r_loc_added_sum :: "int option"
  r_loc_deleted_sum :: "int option"
  totals_by_feature :: "entry list option"
  totals_by_language_feature :: "entry list option"
  totals_by_model_feature :: "entry list option"
  totals_by_ide :: "entry list option"
  totals_by_language_model :: "entry list option"

text \<open>
  \<^verbatim>\<open>for (const r of records) for (const e of r.field || [])\<close> visits the entries of all
  records in order.
\<close>

definition entries :: "(daily \<Rightarrow> entry list option) \<Rightarrow> daily list \<Rightarrow> entry list" where
  "entries field records = concat (map (\<lambda>r. or_empty (field r)) records)"

subsection \<open>Language aggregation of the two servers\<close>

text \<open>
  The dashboard keeps \<^verbatim>\<open>{ codeGenerated, locAdded }\<close> per language, the MCP server
  \<^verbatim>\<open>{ codeGenerated, codeAccepted, locAdded }\<close>. A row \<^verbatim>\<open>{ language, ...d }\<close> is the pair
  of the language and its totals.
\<close>

record language_totals =
  codeGenerated :: int
  locAdded :: int


text \<open>The dictionary \<^verbatim>\<open>langs\<close> that the loop of \<^verbatim>\<open>aggregateByLanguage\<close> builds.\<close>

definition aggregateByLanguage_langs :: "entry list \<Rightarrow> (string \<times> language_totals) list" where
  "aggregateByLanguage_langs es =
     foldl (\<lambda>langs l.
        dict_upd (language l) \<lparr>codeGenerated = 0, locAdded = 0\<rparr>
          (\<lambda>d. d\<lparr>codeGenerated := codeGenerated d + or_zero (code_generation_activity_count l),
                  locAdded := locAdded d + or_zero (loc_added_sum l)\<rparr>) langs)
       [] es"

definition aggregateByLanguage :: "daily list \<Rightarrow> (string \<times> language_totals) list" where
  "aggregateByLanguage records =
     (let langs = aggregateByLanguage_langs (entries totals_by_language_feature records)
      in take 15 (js_sort (\<lambda>a b. codeGenerated (snd b) - codeGenerated (snd a)) langs))"




subsection \<open>Day series\<close>

text \<open>\<^verbatim>\<open>Array.from(new Set(records.map(r => r.day))).sort()\<close>: strings in code-unit order.\<close>

definition getSortedDays :: "daily list \<Rightarrow> string list" where
  "getSortedDays records = sort (js_Set (map day records))"

record day_users =
  du_day :: string
  users :: int

text \<open>\<^verbatim>\<open>records.find(r => r.day === day)\<close>\<close>

definition find_day :: "daily list \<Rightarrow> string \<Rightarrow> daily option" where
  "find_day records d = List.find (\<lambda>r. day r = d) records"

definition aggregateDailyActiveUsers :: "daily list \<Rightarrow> day_users list" where
  "aggregateDailyActiveUsers records =
     map (\<lambda>d. \<lparr>du_day = d,
               users = (case find_day records d of
                          Some rec \<Rightarrow> or_zero (daily_active_users rec)
                        | None \<Rightarrow> 0)\<rparr>)
       (getSortedDays records)"

text \<open>
  The dictionary \<^verbatim>\<open>dauByDay\<close> of \<^verbatim>\<open>aggregateWeeklyActiveUsers\<close> (a later record of a day
  overwrites an earlier one), the read \<^verbatim>\<open>dauByDay[d] || 0\<close>, and the window
  \<^verbatim>\<open>days.slice(Math.max(0, idx - 6), idx + 1)\<close>.
\<close>

definition dauByDay :: "daily list \<Rightarrow> (string \<rightharpoonup> int)" where
  "dauByDay records =
     foldl (\<lambda>m r. m(day r \<mapsto> or_zero (daily_active_users r))) Map.empty records"

definition dau_of :: "daily list \<Rightarrow> string \<Rightarrow> int" where
  "dau_of records d = or_zero (dauByDay records d)"

definition windowDays :: "string list \<Rightarrow> nat \<Rightarrow> string list" where
  "windowDays days idx = slice (nat (max 0 (int idx - 6))) (idx + 1) days"

definition aggregateWeeklyActiveUsers :: "daily list \<Rightarrow> day_users list" where
  "aggregateWeeklyActiveUsers records =
     (let days = getSortedDays records
      in map (\<lambda>(d, idx).
            let sum = foldl (\<lambda>s d'. s + dau_of records d') 0 (windowDays days idx)
            in \<lparr>du_day = d, users = Math_round_div sum (int (length (windowDays days idx)))\<rparr>)
           (zip days [0..<length days]))"

subsection \<open>Top-N with remainder\<close>



subsection \<open>Percentage series per day\<close>

text \<open>\<^verbatim>\<open>obj[k] = v\<close> on a dictionary object.\<close>

definition dict_set :: "'k \<Rightarrow> 'v \<Rightarrow> ('k \<times> 'v) list \<Rightarrow> ('k \<times> 'v) list" where
  "dict_set k v d = dict_upd k v (\<lambda>_. v) d"

text \<open>\<^verbatim>\<open>getRecordsByDay\<close>: the records of every day, in the order of the collection.\<close>

definition getRecordsByDay :: "daily list \<Rightarrow> (string \<times> daily list) list" where
  "getRecordsByDay records =
     foldl (\<lambda>byDay r. dict_upd (day r) [] (\<lambda>rs. rs @ [r]) byDay) [] records"

text \<open>
  \<^verbatim>\<open>aggregateModelUsagePerDay\<close> and \<^verbatim>\<open>aggregateLanguageUsagePerDay\<close> are the same code up
  to the array they read (\<open>field\<close>), the category key of an entry (\<open>key\<close>) and the count
  an entry contributes (\<open>cnt\<close>). The pieces, in the order of the source:
  the totals per category over the whole window,
  \<^verbatim>\<open>totals[k] = (totals[k] || 0) + cnt\<close>;
\<close>

definition categoryTotals :: "(entry \<Rightarrow> string) \<Rightarrow> (entry \<Rightarrow> int) \<Rightarrow> entry list \<Rightarrow> (string \<times> int) list" where
  "categoryTotals key cnt es = foldl (\<lambda>totals e. dict_upd (key e) 0 (\<lambda>v. v + cnt e) totals) [] es"

text \<open>the five top categories, \<^verbatim>\<open>Object.entries(totals).sort((a, b) => b[1] - a[1]).slice(0, 5).map(e => e[0])\<close>;\<close>

definition topCategories :: "(string \<times> int) list \<Rightarrow> string list" where
  "topCategories totals = map fst (take 5 (js_sort (\<lambda>a b. snd b - snd a) totals))"

text \<open>
  the counts of one day, \<^verbatim>\<open>dayCounts\<close>: every top category and then \<^verbatim>\<open>'Other'\<close> start at
  0, and an entry adds to its category if that is a top category, to \<^verbatim>\<open>'Other'\<close> if not;
\<close>

definition dayCounts :: "string list \<Rightarrow> (entry \<Rightarrow> string) \<Rightarrow> (entry \<Rightarrow> int) \<Rightarrow> entry list \<Rightarrow> (string \<times> int) list" where
  "dayCounts topKeys key cnt es =
     foldl (\<lambda>counts e.
        if key e \<in> set topKeys then dict_upd (key e) 0 (\<lambda>v. v + cnt e) counts
        else dict_upd ''Other'' 0 (\<lambda>v. v + cnt e) counts)
       (dict_set ''Other'' 0 (foldl (\<lambda>counts m. dict_set m 0 counts) [] topKeys)) es"

text \<open>
  the share \<^verbatim>\<open>total > 0 ? Math.round((c / total) * 10000) / 100 : 0\<close>, in exact
  arithmetic;
\<close>

definition share :: "int \<Rightarrow> int \<Rightarrow> rat" where
  "share c tot = (if tot > 0 then of_int (Math_round_div (c * 10000) tot) / 100 else 0)"

text \<open>
  and the loop over the days (\<open>tot\<close> is the variable \<^verbatim>\<open>total\<close>), which pushes one share per key of
  \<^verbatim>\<open>[...topKeys, 'Other']\<close> and day. Every sorted day is a key of \<^verbatim>\<open>byDay\<close> and every key
  pushed is a key of \<^verbatim>\<open>dayCounts\<close>, so the defaults of the two reads are not reached.
\<close>

record per_day =
  pd_days :: "string list"
  pd_series :: "(string \<times> rat list) list"

definition usagePerDay ::
  "(daily \<Rightarrow> entry list option) \<Rightarrow> (entry \<Rightarrow> string) \<Rightarrow> (entry \<Rightarrow> int) \<Rightarrow> daily list \<Rightarrow> per_day" where
  "usagePerDay field key cnt records =
     (let byDay = getRecordsByDay records;
          days = getSortedDays records;
          topKeys = topCategories (categoryTotals key cnt (entries field records));
          series0 = dict_set ''Other'' [] (foldl (\<lambda>series m. dict_set m [] series) [] topKeys);
          series = foldl (\<lambda>series d.
              let counts = dayCounts topKeys key cnt (entries field (or_empty (map_of byDay d)));
                  tot = foldl (\<lambda>s v. s + v) 0 (map snd counts)
              in foldl (\<lambda>series k.
                    dict_upd k [] (\<lambda>vs. vs @ [share (or_zero (map_of counts k)) tot]) series)
                  series (topKeys @ [''Other'']))
            series0 days
      in \<lparr>pd_days = days, pd_series = series\<rparr>)"

definition aggregateModelUsagePerDay :: "daily list \<Rightarrow> per_day" where
  "aggregateModelUsagePerDay records =
     usagePerDay totals_by_model_feature model
       (\<lambda>m. or_zero (user_initiated_interaction_count m) + or_zero (code_generation_activity_count m))
       records"

definition aggregateLanguageUsagePerDay :: "daily list \<Rightarrow> per_day" where
  "aggregateLanguageUsagePerDay records =
     usagePerDay totals_by_language_feature language
       (\<lambda>l. or_zero (code_generation_activity_count l)) records"


definition dayShares :: "per_day \<Rightarrow> nat \<Rightarrow> rat list" where
  "dayShares res i = map (\<lambda>kv. snd kv ! i) (pd_series res)"

subsection \<open>Strings\<close>

text \<open>
  A string is a list of code units below 256 (Latin-1). A character beyond that range
  which the code itself writes is kept as its UTF-8 bytes. \<^verbatim>\<open>toLowerCase\<close> maps the
  upper-case letters of Latin-1 to their lower-case letters.
\<close>

definition upper_letters :: string where
  "upper_letters = ''ABCDEFGHIJKLMNOPQRSTUVWXYZ'' @
     [CHR 0xC0, CHR 0xC1, CHR 0xC2, CHR 0xC3, CHR 0xC4, CHR 0xC5, CHR 0xC6, CHR 0xC7,
      CHR 0xC8, CHR 0xC9, CHR 0xCA, CHR 0xCB, CHR 0xCC, CHR 0xCD, CHR 0xCE, CHR 0xCF,
      CHR 0xD0, CHR 0xD1, CHR 0xD2, CHR 0xD3, CHR 0xD4, CHR 0xD5, CHR 0xD6,
      CHR 0xD8, CHR 0xD9, CHR 0xDA, CHR 0xDB, CHR 0xDC, CHR 0xDD, CHR 0xDE]"

definition lower_letters :: string where
  "lower_letters = ''abcdefghijklmnopqrstuvwxyz'' @
     [CHR 0xE0, CHR 0xE1, CHR 0xE2, CHR 0xE3, CHR 0xE4, CHR 0xE5, CHR 0xE6, CHR 0xE7,
      CHR 0xE8, CHR 0xE9, CHR 0xEA, CHR 0xEB, CHR 0xEC, CHR 0xED, CHR 0xEE, CHR 0xEF,
      CHR 0xF0, CHR 0xF1, CHR 0xF2, CHR 0xF3, CHR 0xF4, CHR 0xF5, CHR 0xF6,
      CHR 0xF8, CHR 0xF9, CHR 0xFA, CHR 0xFB, CHR 0xFC, CHR 0xFD, CHR 0xFE]"

definition lower_char :: "char \<Rightarrow> char" where
  "lower_char c = (case map_of (zip upper_letters lower_letters) c of Some l \<Rightarrow> l | None \<Rightarrow> c)"

definition toLowerCase :: "string \<Rightarrow> string" where
  "toLowerCase s = map lower_char s"

text \<open>\<^verbatim>\<open>s.includes(sub)\<close>\<close>

fun str_includes :: "string \<Rightarrow> string \<Rightarrow> bool" where
  "str_includes [] sub = (sub = [])"
| "str_includes (c # cs) sub = (prefix sub (c # cs) \<or> str_includes cs sub)"

text \<open>The character classes \<^verbatim>\<open>\w\<close>, \<^verbatim>\<open>\d\<close>, \<^verbatim>\<open>\s\<close> and the line terminators that \<^verbatim>\<open>.\<close> excludes.\<close>

definition is_word :: "char \<Rightarrow> bool" where
  "is_word c = (c \<in> set ''abcdefghijklmnopqrstuvwxyzABCDEFGHIJKLMNOPQRSTUVWXYZ0123456789_'')"

definition is_digit :: "char \<Rightarrow> bool" where
  "is_digit c = (c \<in> set ''0123456789'')"

definition is_space :: "char \<Rightarrow> bool" where
  "is_space c = (c \<in> set [CHR 0x09, CHR 0x0A, CHR 0x0B, CHR 0x0C, CHR 0x0D, CHR 0x20, CHR 0xA0])"

definition is_line_terminator :: "char \<Rightarrow> bool" where
  "is_line_terminator c = (c \<in> set [CHR 0x0A, CHR 0x0D])"

text \<open>\<^verbatim>\<open>\b\<close> between the character before a position and the rest of the string.\<close>

definition word_boundary :: "char option \<Rightarrow> string \<Rightarrow> bool" where
  "word_boundary prev rest =
     ((case prev of None \<Rightarrow> False | Some c \<Rightarrow> is_word c)
      \<noteq> (case rest of [] \<Rightarrow> False | c # _ \<Rightarrow> is_word c))"

text \<open>
  The test \<^verbatim>\<open>/\b(generate|create|build|make|produce|give me)\b.*\b(report|dashboard|breakdown|analysis|overview)\b/i\<close>.
  Under the flag \<^verbatim>\<open>i\<close> a letter of the pattern matches its two cases, so the pattern is
  matched against the lower-cased prompt. \<open>verb_from\<close> tries every start position,
  \<open>noun_from\<close> lets \<^verbatim>\<open>.*\<close> skip characters other than line terminators.
\<close>

fun any_of :: "('a \<Rightarrow> bool) \<Rightarrow> 'a list \<Rightarrow> bool" where
  "any_of P [] = False"
| "any_of P (w # ws) = (if P w then True else any_of P ws)"

definition word_at :: "string \<Rightarrow> char option \<Rightarrow> string \<Rightarrow> bool" where
  "word_at w prev s =
     (if prefix w s
      then (if word_boundary prev s then word_boundary (Some (last w)) (drop (length w) s) else False)
      else False)"

fun noun_from :: "char option \<Rightarrow> string \<Rightarrow> bool" where
  "noun_from prev [] = False"
| "noun_from prev (c # cs) =
     (if any_of (\<lambda>w. word_at w prev (c # cs))
           [''report'', ''dashboard'', ''breakdown'', ''analysis'', ''overview'']
      then True
      else if is_line_terminator c then False
      else noun_from (Some c) cs)"

fun verb_from :: "char option \<Rightarrow> string \<Rightarrow> bool" where
  "verb_from prev [] = False"
| "verb_from prev (c # cs) =
     (if any_of (\<lambda>v. if word_at v prev (c # cs)
                       then noun_from (Some (last v)) (drop (length v) (c # cs)) else False)
           [''generate'', ''create'', ''build'', ''make'', ''produce'', ''give me'']
      then True
      else verb_from (Some c) cs)"

definition isReport :: "string \<Rightarrow> bool" where
  "isReport prompt = verb_from None (toLowerCase prompt)"

text \<open>\<^verbatim>\<open>prompt.match(/@(\w[\w-]*)/)\<close>: the capture of the leftmost match.\<close>

fun userMatch :: "string \<Rightarrow> string option" where
  "userMatch [] = None"
| "userMatch (c # cs) =
     (if c = CHR ''@'' \<and> (case cs of [] \<Rightarrow> False | d # _ \<Rightarrow> is_word d)
      then Some (takeWhile (\<lambda>d. is_word d \<or> d = CHR ''-'') cs)
      else userMatch cs)"

text \<open>\<^verbatim>\<open>String(n)\<close> for a count \<open>n\<close>, and \<^verbatim>\<open>parseInt(ds, 10)\<close> on a string of digits.\<close>

fun dec :: "nat \<Rightarrow> string" where
  "dec n = (if n < 10 then [''0123456789'' ! n] else dec (n div 10) @ [''0123456789'' ! (n mod 10)])"

declare dec.simps [simp del]

definition digit_value :: "char \<Rightarrow> nat" where
  "digit_value c = (case map_of (zip ''0123456789'' [0, 1, 2, 3, 4, 5, 6, 7, 8, 9]) c of Some d \<Rightarrow> d | None \<Rightarrow> 0)"

definition parseInt :: "string \<Rightarrow> nat" where
  "parseInt ds = foldl (\<lambda>n c. 10 * n + digit_value c) 0 ds"

text \<open>\<^verbatim>\<open>lower.match(/top\s+(\d+)/)\<close>: the capture of the leftmost match.\<close>

fun limitMatch :: "string \<Rightarrow> string option" where
  "limitMatch [] = None"
| "limitMatch (c # cs) =
     (let ws = takeWhile is_space (drop 3 (c # cs));
          ds = takeWhile is_digit (dropWhile is_space (drop 3 (c # cs)))
      in if prefix ''top'' (c # cs) \<and> ws \<noteq> [] \<and> ds \<noteq> [] then Some ds else limitMatch cs)"

subsection \<open>Exceptions and numbers\<close>

text \<open>
  A call that throws returns \<open>Inl\<close>. \<open>and_then\<close> sequences two steps, \<open>map_throwing\<close> is
  \<^verbatim>\<open>arr.map(f)\<close> for an \<open>f\<close> that may throw, and \<open>reduce1\<close> is \<^verbatim>\<open>arr.reduce(f)\<close> without
  an initial value, which throws a TypeError on an empty array.
\<close>

datatype error = TypeError

definition and_then :: "error + 'a \<Rightarrow> ('a \<Rightarrow> error + 'b) \<Rightarrow> error + 'b" where
  "and_then r f = (case r of Inl e \<Rightarrow> Inl e | Inr x \<Rightarrow> f x)"

fun map_throwing :: "('a \<Rightarrow> error + 'b) \<Rightarrow> 'a list \<Rightarrow> error + 'b list" where
  "map_throwing f [] = Inr []"
| "map_throwing f (x # xs) =
     and_then (f x) (\<lambda>y. and_then (map_throwing f xs) (\<lambda>ys. Inr (y # ys)))"

fun reduce1 :: "('a \<Rightarrow> 'a \<Rightarrow> 'a) \<Rightarrow> 'a list \<Rightarrow> error + 'a" where
  "reduce1 f [] = Inl TypeError"
| "reduce1 f (x # xs) = Inr (foldl f x xs)"

text \<open>
  The values that reach \<^verbatim>\<open>fmt\<close> and the chart data: an integer, a fraction,
  \<^verbatim>\<open>-Infinity\<close> (from \<^verbatim>\<open>Math.max()\<close> of nothing) and \<^verbatim>\<open>undefined\<close> (a missing property).
\<close>

datatype jsnum = IntNum int | RatNum rat | NegInfinity | Undefined

text \<open>\<^verbatim>\<open>n.toLocaleString('en-US')\<close> on an integer: groups of three digits.\<close>

fun grouped :: "nat \<Rightarrow> string" where
  "grouped n =
     (if n < 1000 then dec n
      else grouped (n div 1000) @ '','' @
        [''0123456789'' ! (n mod 1000 div 100), ''0123456789'' ! (n mod 100 div 10),
         ''0123456789'' ! (n mod 10)])"

declare grouped.simps [simp del]

definition fmt_int :: "int \<Rightarrow> string" where
  "fmt_int i = (if i < 0 then ''-'' @ grouped (nat (- i)) else grouped (nat i))"

text \<open>\<^verbatim>\<open>xs.join(sep)\<close>\<close>

definition join :: "string \<Rightarrow> string list \<Rightarrow> string" where
  "join sep xs = (case xs of [] \<Rightarrow> [] | y # ys \<Rightarrow> foldl (\<lambda>s x. s @ sep @ x) y ys)"

subsection \<open>Feature tables\<close>

definition FEATURE_DISPLAY :: "(string \<times> string) list" where
  "FEATURE_DISPLAY =
     [(''chat_panel_agent_mode'', ''Agent Mode''),
      (''chat_panel_ask_mode'', ''Ask Mode''),
      (''chat_panel_edit_mode'', ''Edit Mode''),
      (''chat_panel_custom_mode'', ''Custom Mode''),
      (''chat_inline'', ''Inline Chat''),
      (''code_completion'', ''Code Completion''),
      (''agent_edit'', ''Agent Edit''),
      (''chat_panel_unknown_mode'', ''Unknown Mode'')]"

definition AGENT_FEATURES :: "string list" where
  "AGENT_FEATURES =
     [''agent_edit'', ''chat_panel_agent_mode'', ''chat_panel_custom_mode'', ''chat_panel_edit_mode'']"

definition USER_INITIATED_FEATURES :: "string list" where
  "USER_INITIATED_FEATURES = [''code_completion'', ''chat_panel_ask_mode'', ''chat_inline'']"

definition CHAT_MODES :: "string list" where
  "CHAT_MODES =
     [''chat_panel_agent_mode'', ''chat_panel_ask_mode'', ''chat_panel_edit_mode'',
      ''chat_panel_custom_mode'', ''chat_inline'']"

text \<open>\<^verbatim>\<open>FEATURE_DISPLAY[f] || f\<close>\<close>

definition display_or_name :: "string \<Rightarrow> string" where
  "display_or_name f = (case map_of FEATURE_DISPLAY f of Some d \<Rightarrow> d | None \<Rightarrow> f)"

subsection \<open>Scalars\<close>

text \<open>\<^verbatim>\<open>getDateRange\<close>: \<^verbatim>\<open>!start\<close> holds for \<^verbatim>\<open>null\<close> and for the empty string.\<close>

definition getDateRange :: "daily list \<Rightarrow> string option \<times> string option" where
  "getDateRange records =
     foldl (\<lambda>(start, end) r.
        ((case start of None \<Rightarrow> Some (day r)
          | Some s \<Rightarrow> if s = [] \<or> day r < s then Some (day r) else Some s),
         (case end of None \<Rightarrow> Some (day r)
          | Some e \<Rightarrow> if e = [] \<or> day r > e then Some (day r) else Some e)))
       (None, None) records"

text \<open>A string or \<^verbatim>\<open>null\<close> inside a template literal.\<close>

definition str_or_null :: "string option \<Rightarrow> string" where
  "str_or_null s = (case s of None \<Rightarrow> ''null'' | Some x \<Rightarrow> x)"

text \<open>\<^verbatim>\<open>getUniqueUsers().size\<close>: the largest count of daily active users.\<close>

definition getUniqueUsers_size :: "daily list \<Rightarrow> int" where
  "getUniqueUsers_size records = foldl (\<lambda>m r. max m (or_zero (daily_active_users r))) 0 records"

definition sumField :: "(daily \<Rightarrow> int option) \<Rightarrow> daily list \<Rightarrow> int" where
  "sumField field records = foldl (\<lambda>s r. s + or_zero (field r)) 0 records"

definition countUsersWhere :: "(daily \<Rightarrow> bool) \<Rightarrow> daily list \<Rightarrow> int" where
  "countUsersWhere predicate records = foldl (\<lambda>count r. if predicate r then count + 1 else count) 0 records"

subsection \<open>Categorical aggregations\<close>

text \<open>\<^verbatim>\<open>a.localeCompare(b)\<close> on day keys: on ISO dates the locale order is the code-unit order.\<close>

definition localeCompare :: "string \<Rightarrow> string \<Rightarrow> int" where
  "localeCompare a b = (if a < b then - 1 else if a = b then 0 else 1)"

record day_totals =
  t_interactions :: int
  t_codeGenerated :: int
  t_locAdded :: int
  t_activeUsers :: int

definition aggregateByDay :: "daily list \<Rightarrow> (string \<times> day_totals) list" where
  "aggregateByDay records =
     (let days = foldl (\<lambda>days r.
            dict_upd (day r) \<lparr>t_interactions = 0, t_codeGenerated = 0, t_locAdded = 0, t_activeUsers = 0\<rparr>
              (\<lambda>d. d\<lparr>t_interactions := t_interactions d + or_zero (r_user_initiated_interaction_count r),
                      t_codeGenerated := t_codeGenerated d + or_zero (r_code_generation_activity_count r),
                      t_locAdded := t_locAdded d + or_zero (r_loc_added_sum r),
                      t_activeUsers := or_zero (daily_active_users r)\<rparr>) days)
            [] records
      in js_sort (\<lambda>a b. localeCompare (fst a) (fst b)) days)"

record feature_totals =
  f_interactions :: int
  f_codeGenerated :: int
  f_locAdded :: int

definition aggregateByFeature :: "daily list \<Rightarrow> (string \<times> feature_totals) list" where
  "aggregateByFeature records =
     (let features = foldl (\<lambda>features f.
            dict_upd (feature f) \<lparr>f_interactions = 0, f_codeGenerated = 0, f_locAdded = 0\<rparr>
              (\<lambda>d. d\<lparr>f_interactions := f_interactions d + or_zero (user_initiated_interaction_count f),
                      f_codeGenerated := f_codeGenerated d + or_zero (code_generation_activity_count f),
                      f_locAdded := f_locAdded d + or_zero (loc_added_sum f)\<rparr>) features)
            [] (entries totals_by_feature records)
      in js_sort (\<lambda>a b. f_interactions (snd b) - f_interactions (snd a)) features)"

text \<open>
  \<^verbatim>\<open>aggregateByModel\<close> and \<^verbatim>\<open>aggregateByIDE\<close> keep \<^verbatim>\<open>{ interactions, codeGenerated }\<close> per
  key and sort by interactions, descending; the model list is cut to 15 rows.
\<close>

record usage_totals =
  u_interactions :: int
  u_codeGenerated :: int

definition usageTotals :: "(entry \<Rightarrow> string) \<Rightarrow> entry list \<Rightarrow> (string \<times> usage_totals) list" where
  "usageTotals key es =
     js_sort (\<lambda>a b. u_interactions (snd b) - u_interactions (snd a))
       (foldl (\<lambda>dict e.
          dict_upd (key e) \<lparr>u_interactions = 0, u_codeGenerated = 0\<rparr>
            (\<lambda>d. d\<lparr>u_interactions := u_interactions d + or_zero (user_initiated_interaction_count e),
                    u_codeGenerated := u_codeGenerated d + or_zero (code_generation_activity_count e)\<rparr>) dict)
          [] es)"

definition aggregateByModel :: "daily list \<Rightarrow> (string \<times> usage_totals) list" where
  "aggregateByModel records = take 15 (usageTotals model (entries totals_by_model_feature records))"

definition aggregateByIDE :: "daily list \<Rightarrow> (string \<times> usage_totals) list" where
  "aggregateByIDE records = usageTotals ide (entries totals_by_ide records)"

subsection \<open>More day series\<close>

text \<open>\<^verbatim>\<open>FEATURE_DISPLAY[f]\<close> used as a property key: a missing entry reads \<^verbatim>\<open>undefined\<close>.\<close>

definition display_key :: "string \<Rightarrow> string" where
  "display_key f = (case map_of FEATURE_DISPLAY f of Some d \<Rightarrow> d | None \<Rightarrow> ''undefined'')"

definition aggregateAvgChatRequestsPerActiveUser :: "daily list \<Rightarrow> (string \<times> rat) list" where
  "aggregateAvgChatRequestsPerActiveUser records =
     map (\<lambda>d. case find_day records d of
            None \<Rightarrow> (d, 0)
          | Some rec \<Rightarrow>
              let totalChat = foldl (\<lambda>s f. if feature f \<noteq> ''code_completion''
                                             then s + or_zero (user_initiated_interaction_count f) else s)
                                0 (or_empty (totals_by_feature rec));
                  dau = (case daily_active_users rec of None \<Rightarrow> 1 | Some v \<Rightarrow> if v = 0 then 1 else v)
              in (d, of_int (Math_round_div (totalChat * 100) dau) / 100))
       (getSortedDays records)"

definition aggregateRequestsPerChatMode :: "daily list \<Rightarrow> per_day" where
  "aggregateRequestsPerChatMode records =
     (let byDay = getRecordsByDay records;
          days = getSortedDays records;
          series0 = foldl (\<lambda>series feat. dict_set (display_key feat) [] series) [] CHAT_MODES;
          series = foldl (\<lambda>series d.
              let counts0 = foldl (\<lambda>counts feat. dict_set (display_key feat) 0 counts) [] CHAT_MODES;
                  counts = foldl (\<lambda>counts f.
                      if feature f \<in> set CHAT_MODES
                      then dict_upd (display_key (feature f)) 0
                             (\<lambda>v. v + or_zero (user_initiated_interaction_count f)) counts
                      else counts)
                    counts0 (entries totals_by_feature (or_empty (map_of byDay d)))
              in foldl (\<lambda>series name.
                    dict_upd name [] (\<lambda>vs. vs @ [of_int (or_zero (map_of counts name))]) series)
                  series (map fst series))
            series0 days
      in \<lparr>pd_days = days, pd_series = series\<rparr>)"

definition aggregateCodeCompletions :: "daily list \<Rightarrow> (string \<times> int \<times> int) list" where
  "aggregateCodeCompletions records =
     (let byDay = getRecordsByDay records
      in map (\<lambda>d.
            let fs = filter (\<lambda>f. feature f = ''code_completion'')
                       (entries totals_by_feature (or_empty (map_of byDay d)))
            in (d, foldl (\<lambda>shown f. shown + or_zero (code_generation_activity_count f)) 0 fs,
                   foldl (\<lambda>accepted f. accepted + or_zero (code_acceptance_activity_count f)) 0 fs))
           (getSortedDays records))"

definition aggregateChatModelDistribution :: "daily list \<Rightarrow> (string \<times> int) list" where
  "aggregateChatModelDistribution records =
     js_sort (\<lambda>a b. snd b - snd a)
       (categoryTotals model (\<lambda>m. or_zero (user_initiated_interaction_count m))
          (filter (\<lambda>m. feature m \<noteq> ''code_completion'') (entries totals_by_model_feature records)))"

definition aggregateModelUsagePerChatMode :: "daily list \<Rightarrow> string list \<times> (string \<times> rat list) list" where
  "aggregateModelUsagePerChatMode records =
     (let es = filter (\<lambda>m. feature m \<in> set CHAT_MODES) (entries totals_by_model_feature records);
          topModels = topCategories
            (categoryTotals model (\<lambda>m. or_zero (user_initiated_interaction_count m)) es);
          data0 = foldl (\<lambda>data feat.
              dict_set (display_key feat)
                (dict_set ''Other'' 0 (foldl (\<lambda>d m. dict_set m 0 d) [] topModels)) data)
            [] CHAT_MODES;
          data = foldl (\<lambda>data m.
              dict_upd (display_key (feature m)) []
                (\<lambda>inner. if model m \<in> set topModels
                   then dict_upd (model m) 0 (\<lambda>v. v + or_zero (user_initiated_interaction_count m)) inner
                   else dict_upd ''Other'' 0 (\<lambda>v. v + or_zero (user_initiated_interaction_count m)) inner)
                data)
            data0 es;
          labels = map display_key CHAT_MODES;
          seriesKeys = topModels @ [''Other'']
      in (labels,
          map (\<lambda>m. (m, map (\<lambda>feat.
                  let inner = or_empty (map_of data feat);
                      tot = foldl (\<lambda>s v. s + v) 0 (map snd inner)
                  in share (or_zero (map_of inner m)) tot) labels))
            seriesKeys))"

definition aggregateLanguageDistribution :: "daily list \<Rightarrow> (string \<times> int) list" where
  "aggregateLanguageDistribution records =
     js_sort (\<lambda>a b. snd b - snd a)
       (categoryTotals language (\<lambda>l. or_zero (code_generation_activity_count l))
          (entries totals_by_language_feature records))"

definition aggregateDailyLocAddedDeleted :: "daily list \<Rightarrow> (string \<times> int \<times> int) list" where
  "aggregateDailyLocAddedDeleted records =
     (let byDay = getRecordsByDay records
      in map (\<lambda>d.
            let rs = or_empty (map_of byDay d)
            in (d, foldl (\<lambda>added r. added + or_zero (r_loc_added_sum r)) 0 rs,
                   foldl (\<lambda>deleted r. deleted + or_zero (r_loc_deleted_sum r)) 0 rs))
           (getSortedDays records))"

subsection \<open>Code changes\<close>

definition aggregateUserInitiatedCodeChanges :: "daily list \<Rightarrow> int \<times> int" where
  "aggregateUserInitiatedCodeChanges records =
     foldl (\<lambda>(suggested, added) f.
        if feature f \<in> set USER_INITIATED_FEATURES
        then (suggested + or_zero (loc_suggested_to_add_sum f), added + or_zero (loc_added_sum f))
        else (suggested, added))
       (0, 0) (entries totals_by_feature records)"

definition aggregateAgentInitiatedCodeChanges :: "daily list \<Rightarrow> int \<times> int" where
  "aggregateAgentInitiatedCodeChanges records =
     foldl (\<lambda>(added, deleted) f.
        if feature f \<in> set AGENT_FEATURES
        then (added + or_zero (loc_added_sum f), deleted + or_zero (loc_deleted_sum f))
        else (added, deleted))
       (0, 0) (entries totals_by_feature records)"

text \<open>
  The four \<^verbatim>\<open>aggregate...CodeChangesBy...\<close> functions share their code: entries that pass
  a test on the feature add two line counts to the pair of their key, and the rows are
  sorted by the sum of the pair, descending. The pair is \<^verbatim>\<open>{ suggested, added }\<close> for
  the user-initiated changes and \<^verbatim>\<open>{ added, deleted }\<close> for the agent's.
\<close>

definition codeChangesBy ::
  "(entry \<Rightarrow> bool) \<Rightarrow> (entry \<Rightarrow> string) \<Rightarrow> (entry \<Rightarrow> int option) \<Rightarrow> (entry \<Rightarrow> int option)
   \<Rightarrow> entry list \<Rightarrow> (string \<times> int \<times> int) list" where
  "codeChangesBy keep key fst_sum snd_sum es =
     js_sort (\<lambda>a b. (fst (snd b) + snd (snd b)) - (fst (snd a) + snd (snd a)))
       (foldl (\<lambda>dict e.
          if keep e
          then dict_upd (key e) (0, 0)
                 (\<lambda>(x, y). (x + or_zero (fst_sum e), y + or_zero (snd_sum e))) dict
          else dict)
          [] es)"

definition aggregateAgentCodeChangesByModel :: "daily list \<Rightarrow> (string \<times> int \<times> int) list" where
  "aggregateAgentCodeChangesByModel records =
     codeChangesBy (\<lambda>m. feature m \<in> set AGENT_FEATURES) model loc_added_sum loc_deleted_sum
       (entries totals_by_model_feature records)"

definition aggregateUserCodeChangesByLanguage :: "daily list \<Rightarrow> (string \<times> int \<times> int) list" where
  "aggregateUserCodeChangesByLanguage records =
     codeChangesBy (\<lambda>l. feature l \<notin> set AGENT_FEATURES) language loc_suggested_to_add_sum loc_added_sum
       (entries totals_by_language_feature records)"

definition aggregateAgentCodeChangesByLanguage :: "daily list \<Rightarrow> (string \<times> int \<times> int) list" where
  "aggregateAgentCodeChangesByLanguage records =
     codeChangesBy (\<lambda>l. feature l \<in> set AGENT_FEATURES) language loc_added_sum loc_deleted_sum
       (entries totals_by_language_feature records)"

subsection \<open>Rendering\<close>

text \<open>
  \<^verbatim>\<open>fmt(n)\<close> is \<^verbatim>\<open>n.toLocaleString('en-US')\<close>: it throws a TypeError on \<^verbatim>\<open>undefined\<close>.
  A fraction is printed with up to three decimals. \<^verbatim>\<open>x.toFixed(1)\<close> is \<open>toFixed1\<close>;
  \<open>percent1 a b\<close> is \<^verbatim>\<open>(a / b * 100).toFixed(1)\<close> and \<open>average1 s n\<close> is
  \<^verbatim>\<open>(s / n).toFixed(1)\<close>, in exact arithmetic, with \<^verbatim>\<open>NaN\<close> and the infinities of a
  division by zero.
\<close>

definition strip_zeros :: "string \<Rightarrow> string" where
  "strip_zeros ds = rev (dropWhile (\<lambda>c. c = CHR ''0'') (rev ds))"

definition fmt_rat :: "rat \<Rightarrow> string" where
  "fmt_rat q =
     (let n = nat \<lfloor>\<bar>q\<bar> * 1000 + 1 / 2\<rfloor>;
          frac = strip_zeros [''0123456789'' ! (n mod 1000 div 100), ''0123456789'' ! (n mod 100 div 10),
                              ''0123456789'' ! (n mod 10)]
      in (if q < 0 then ''-'' else []) @ grouped (n div 1000) @ (if frac = [] then [] else ''.'' @ frac))"

fun fmt :: "jsnum \<Rightarrow> error + string" where
  "fmt (IntNum i) = Inr (fmt_int i)"
| "fmt (RatNum q) = Inr (fmt_rat q)"
| "fmt NegInfinity = Inr (''-'' @ [CHR 0xE2, CHR 0x88, CHR 0x9E])"
| "fmt Undefined = Inl TypeError"

definition toFixed1 :: "rat \<Rightarrow> string" where
  "toFixed1 q =
     (let n = nat \<lfloor>\<bar>q\<bar> * 10 + 1 / 2\<rfloor>
      in (if q < 0 then ''-'' else []) @ dec (n div 10) @ ''.'' @ dec (n mod 10))"

definition percent1 :: "int \<Rightarrow> int \<Rightarrow> string" where
  "percent1 a b =
     (if b = 0 then (if a = 0 then ''NaN'' else if a > 0 then ''Infinity'' else ''-Infinity'')
      else toFixed1 (of_int a / of_int b * 100))"

definition average1 :: "rat \<Rightarrow> nat \<Rightarrow> string" where
  "average1 s n =
     (if n = 0 then (if s = 0 then ''NaN'' else if s > 0 then ''Infinity'' else ''-Infinity'')
      else toFixed1 (s / of_nat n))"

text \<open>\<^verbatim>\<open>Math.max(...xs)\<close>\<close>

definition Math_max :: "int list \<Rightarrow> jsnum" where
  "Math_max xs = (case xs of [] \<Rightarrow> NegInfinity | y # ys \<Rightarrow> IntNum (foldl max y ys))"

text \<open>A table row \<^verbatim>\<open>| name | fmt(a) | fmt(b) |\<close>.\<close>

definition table_row :: "string \<Rightarrow> jsnum list \<Rightarrow> error + string" where
  "table_row name cells =
     and_then (map_throwing fmt cells) (\<lambda>cs. Inr (''| '' @ join '' | '' (name # cs) @ '' |''))"

subsection \<open>Responses\<close>

text \<open>
  A response \<^verbatim>\<open>{ markdown, chartData, chartsData }\<close>; \<open>None\<close> is \<^verbatim>\<open>null\<close> or a missing
  property, and \<open>c_stacked\<close> is false where the chart has no \<^verbatim>\<open>stacked\<close> property.
\<close>

record dataset =
  ds_label :: string
  ds_data :: "jsnum list"

record chart =
  c_title :: "string option"
  c_type :: string
  c_stacked :: bool
  c_labels :: "string list"
  c_datasets :: "dataset list"

record response =
  markdown :: string
  chartData :: "chart option"
  chartsData :: "chart list option"

definition series_datasets :: "(string \<times> rat list) list \<Rightarrow> dataset list" where
  "series_datasets series = map (\<lambda>(l, vs). \<lparr>ds_label = l, ds_data = map RatNum vs\<rparr>) series"

subsection \<open>Per-user data\<close>

text \<open>
  The shape the code expects of per-user data. \<^verbatim>\<open>getUserData\<close> returns \<^verbatim>\<open>null\<close> and
  \<^verbatim>\<open>aggregateTopUsers\<close> returns \<^verbatim>\<open>[]\<close> for every collection: the enterprise-level data
  has no per-user breakdown.
\<close>

record user_data =
  login :: string
  ud_interactions :: int
  ud_codeGenerated :: int
  ud_locAdded :: int
  ud_locDeleted :: int
  daysActive :: nat
  usedAgent :: bool
  usedChat :: bool
  dailyTrends :: "(string \<times> int \<times> int) list"

definition getUserData :: "string \<Rightarrow> user_data option" where
  "getUserData username = None"

definition aggregateTopUsers :: "nat \<Rightarrow> user_data list" where
  "aggregateTopUsers limit = []"

subsection \<open>The branches of the query handler\<close>

definition int_data :: "int list \<Rightarrow> jsnum list" where
  "int_data xs = map IntNum xs"

definition languageReport :: "daily list \<Rightarrow> error + response" where
  "languageReport records =
     (let langDist = aggregateLanguageDistribution records;
          langPerDay = aggregateLanguageUsagePerDay records;
          userByLang = take 10 (aggregateUserCodeChangesByLanguage records);
          agentByLang = take 10 (aggregateAgentCodeChangesByLanguage records);
          top = take 10 langDist
      in and_then
           (map_throwing (\<lambda>l.
              let tot = foldl (\<lambda>s x. s + snd x) 0 langDist
              in and_then (fmt (IntNum (snd l))) (\<lambda>c.
                   Inr (''| '' @ fst l @ '' | '' @ c @ '' | '' @ percent1 (snd l) tot @ ''% |''))) top)
           (\<lambda>rows. Inr
              \<lparr>markdown = join ''\<newline>''
                 ([''# Language Adoption Report'',
                   ''\<newline>| Language | Code Generations | % of Total |'',
                   ''|----------|-----------------|------------|''] @ rows),
               chartData = None,
               chartsData = Some
                 [\<lparr>c_title = Some ''Language Distribution'', c_type = ''pie'', c_stacked = False,
                   c_labels = map fst top,
                   c_datasets = [\<lparr>ds_label = ''Code Generations'', ds_data = int_data (map snd top)\<rparr>]\<rparr>,
                  \<lparr>c_title = Some ''Language Usage Trend (%)'', c_type = ''bar'', c_stacked = True,
                   c_labels = pd_days langPerDay,
                   c_datasets = series_datasets (pd_series langPerDay)\<rparr>,
                  \<lparr>c_title = Some ''User-Initiated LOC by Language'', c_type = ''bar'', c_stacked = False,
                   c_labels = map fst userByLang,
                   c_datasets =
                     [\<lparr>ds_label = ''Suggested'', ds_data = int_data (map (\<lambda>l. fst (snd l)) userByLang)\<rparr>,
                      \<lparr>ds_label = ''Added'', ds_data = int_data (map (\<lambda>l. snd (snd l)) userByLang)\<rparr>]\<rparr>,
                  \<lparr>c_title = Some ''Agent-Initiated LOC by Language'', c_type = ''bar'', c_stacked = False,
                   c_labels = map fst agentByLang,
                   c_datasets =
                     [\<lparr>ds_label = ''Added'', ds_data = int_data (map (\<lambda>l. fst (snd l)) agentByLang)\<rparr>,
                      \<lparr>ds_label = ''Deleted'', ds_data = int_data (map (\<lambda>l. snd (snd l)) agentByLang)\<rparr>]\<rparr>]\<rparr>))"

definition modelReport :: "daily list \<Rightarrow> error + response" where
  "modelReport records =
     (let modelDist = aggregateChatModelDistribution records;
          modelPerDay = aggregateModelUsagePerDay records;
          modelPerChat = aggregateModelUsagePerChatMode records;
          agentByModel = take 10 (aggregateAgentCodeChangesByModel records);
          top = take 10 modelDist
      in and_then
           (map_throwing (\<lambda>m.
              let tot = foldl (\<lambda>s x. s + snd x) 0 modelDist
              in and_then (fmt (IntNum (snd m))) (\<lambda>c.
                   Inr (''| '' @ fst m @ '' | '' @ c @ '' | '' @ percent1 (snd m) tot @ ''% |''))) top)
           (\<lambda>rows. Inr
              \<lparr>markdown = join ''\<newline>''
                 ([''# Model Usage Report'',
                   ''\<newline>| Model | Interactions | % of Total |'',
                   ''|-------|-------------|------------|''] @ rows),
               chartData = None,
               chartsData = Some
                 [\<lparr>c_title = Some ''Chat Model Distribution'', c_type = ''pie'', c_stacked = False,
                   c_labels = map fst top,
                   c_datasets = [\<lparr>ds_label = ''Interactions'', ds_data = int_data (map snd top)\<rparr>]\<rparr>,
                  \<lparr>c_title = Some ''Model Usage Trend (%)'', c_type = ''bar'', c_stacked = True,
                   c_labels = pd_days modelPerDay,
                   c_datasets = series_datasets (pd_series modelPerDay)\<rparr>,
                  \<lparr>c_title = Some ''Model Usage per Chat Mode (%)'', c_type = ''bar'', c_stacked = False,
                   c_labels = fst modelPerChat,
                   c_datasets = series_datasets (snd modelPerChat)\<rparr>,
                  \<lparr>c_title = Some ''Agent LOC by Model'', c_type = ''bar'', c_stacked = False,
                   c_labels = map fst agentByModel,
                   c_datasets =
                     [\<lparr>ds_label = ''Added'', ds_data = int_data (map (\<lambda>m. fst (snd m)) agentByModel)\<rparr>,
                      \<lparr>ds_label = ''Deleted'', ds_data = int_data (map (\<lambda>m. snd (snd m)) agentByModel)\<rparr>]\<rparr>]\<rparr>))"

definition featureReport :: "daily list \<Rightarrow> error + response" where
  "featureReport records =
     (let features = aggregateByFeature records;
          chatMode = aggregateRequestsPerChatMode records;
          agentChanges = aggregateAgentInitiatedCodeChanges records;
          userChanges = aggregateUserInitiatedCodeChanges records;
          totalLoc = sumField r_loc_added_sum records + sumField r_loc_deleted_sum records;
          agentPct = (if totalLoc > 0 then percent1 (fst agentChanges + snd agentChanges) totalLoc else ''0'')
      in and_then
           (map_throwing (\<lambda>f. table_row (display_or_name (fst f))
              [IntNum (f_interactions (snd f)), IntNum (f_codeGenerated (snd f)), IntNum (f_locAdded (snd f))])
              features)
           (\<lambda>rows. Inr
              \<lparr>markdown = join ''\<newline>''
                 ([''# Feature & Agent Adoption Report'',
                   ''\<newline>| Feature | Interactions | Code Generated | LOC Added |'',
                   ''|---------|-------------|----------------|-----------|''] @ rows @
                  [''\<newline>> **Agent Contribution:** '' @ agentPct @ ''% of all lines changed'']),
               chartData = None,
               chartsData = Some
                 [\<lparr>c_title = Some ''Interactions by Feature'', c_type = ''bar'', c_stacked = False,
                   c_labels = map (\<lambda>f. display_or_name (fst f)) features,
                   c_datasets = [\<lparr>ds_label = ''Interactions'',
                                  ds_data = int_data (map (\<lambda>f. f_interactions (snd f)) features)\<rparr>]\<rparr>,
                  \<lparr>c_title = Some ''Requests per Chat Mode (Daily)'', c_type = ''bar'', c_stacked = True,
                   c_labels = pd_days chatMode,
                   c_datasets = series_datasets (pd_series chatMode)\<rparr>,
                  \<lparr>c_title = Some ''User vs Agent Code Changes'', c_type = ''bar'', c_stacked = False,
                   c_labels = [''User Suggested'', ''User Added'', ''Agent Added'', ''Agent Deleted''],
                   c_datasets = [\<lparr>ds_label = ''Lines of Code'',
                                  ds_data = int_data [fst userChanges, snd userChanges,
                                                      fst agentChanges, snd agentChanges]\<rparr>]\<rparr>,
                  \<lparr>c_title = Some ''Feature LOC Contribution'', c_type = ''pie'', c_stacked = False,
                   c_labels = map (\<lambda>f. display_or_name (fst f)) features,
                   c_datasets = [\<lparr>ds_label = ''LOC Added'',
                                  ds_data = int_data (map (\<lambda>f. f_locAdded (snd f)) features)\<rparr>]\<rparr>]\<rparr>))"

definition trendReport :: "daily list \<Rightarrow> error + response" where
  "trendReport records =
     (let dailyActive = aggregateDailyActiveUsers records;
          weeklyActive = aggregateWeeklyActiveUsers records;
          avgChat = aggregateAvgChatRequestsPerActiveUser records;
          completions = aggregateCodeCompletions records
      in and_then (fmt (Math_max (map users dailyActive))) (\<lambda>peakDaily.
         and_then (fmt (Math_max (map users weeklyActive))) (\<lambda>peakWeekly. Inr
           \<lparr>markdown = join ''\<newline>''
              [''# Usage Trends Report'',
               ''\<newline>**Period:** '' @ str_or_null (fst (getDateRange records)) @ '' to ''
                 @ str_or_null (snd (getDateRange records)),
               ''\<newline>- Peak daily active users: **'' @ peakDaily @ ''**'',
               ''- Peak weekly active users: **'' @ peakWeekly @ ''**'',
               ''- Average chat requests per user: **''
                 @ average1 (foldl (\<lambda>s d. s + snd d) 0 avgChat) (length avgChat) @ ''**''],
            chartData = None,
            chartsData = Some
              [\<lparr>c_title = Some ''Daily Active Users'', c_type = ''line'', c_stacked = False,
                c_labels = map du_day dailyActive,
                c_datasets = [\<lparr>ds_label = ''Active Users'', ds_data = int_data (map users dailyActive)\<rparr>]\<rparr>,
               \<lparr>c_title = Some ''Weekly Active Users (7-day rolling)'', c_type = ''line'', c_stacked = False,
                c_labels = map du_day weeklyActive,
                c_datasets = [\<lparr>ds_label = ''Weekly Active'', ds_data = int_data (map users weeklyActive)\<rparr>]\<rparr>,
               \<lparr>c_title = Some ''Avg Chat Requests per Active User'', c_type = ''line'', c_stacked = False,
                c_labels = map fst avgChat,
                c_datasets = [\<lparr>ds_label = ''Avg Requests'', ds_data = map (\<lambda>d. RatNum (snd d)) avgChat\<rparr>]\<rparr>,
               \<lparr>c_title = Some ''Code Completions (Shown vs Accepted)'', c_type = ''line'', c_stacked = False,
                c_labels = map fst completions,
                c_datasets =
                  [\<lparr>ds_label = ''Shown'', ds_data = int_data (map (\<lambda>d. fst (snd d)) completions)\<rparr>,
                   \<lparr>ds_label = ''Accepted'', ds_data = int_data (map (\<lambda>d. snd (snd d)) completions)\<rparr>]\<rparr>]\<rparr>)))"

definition codeReport :: "daily list \<Rightarrow> error + response" where
  "codeReport records =
     (let dailyLoc = aggregateDailyLocAddedDeleted records;
          userChanges = aggregateUserInitiatedCodeChanges records;
          agentChanges = aggregateAgentInitiatedCodeChanges records;
          agentByModel = take 8 (aggregateAgentCodeChangesByModel records)
      in and_then (map_throwing (\<lambda>(name, v). table_row name [IntNum v])
           [(''Total Lines Added'', sumField r_loc_added_sum records),
            (''Total Lines Deleted'', sumField r_loc_deleted_sum records),
            (''User-Initiated Suggested'', fst userChanges),
            (''User-Initiated Added'', snd userChanges),
            (''Agent Added'', fst agentChanges),
            (''Agent Deleted'', snd agentChanges)])
           (\<lambda>rows. Inr
              \<lparr>markdown = join ''\<newline>''
                 ([''# Code Generation Report'',
                   ''\<newline>| Metric | Value |'',
                   ''|--------|-------|''] @ rows),
               chartData = None,
               chartsData = Some
                 [\<lparr>c_title = Some ''Daily Lines Added & Deleted'', c_type = ''bar'', c_stacked = False,
                   c_labels = map fst dailyLoc,
                   c_datasets =
                     [\<lparr>ds_label = ''Added'', ds_data = int_data (map (\<lambda>d. fst (snd d)) dailyLoc)\<rparr>,
                      \<lparr>ds_label = ''Deleted'', ds_data = int_data (map (\<lambda>d. snd (snd d)) dailyLoc)\<rparr>]\<rparr>,
                  \<lparr>c_title = Some ''User vs Agent Code Changes'', c_type = ''bar'', c_stacked = False,
                   c_labels = [''User Suggested'', ''User Added'', ''Agent Added'', ''Agent Deleted''],
                   c_datasets = [\<lparr>ds_label = ''Lines of Code'',
                                  ds_data = int_data [fst userChanges, snd userChanges,
                                                      fst agentChanges, snd agentChanges]\<rparr>]\<rparr>,
                  \<lparr>c_title = Some ''Agent Code Changes by Model'', c_type = ''bar'', c_stacked = False,
                   c_labels = map fst agentByModel,
                   c_datasets =
                     [\<lparr>ds_label = ''Added'', ds_data = int_data (map (\<lambda>m. fst (snd m)) agentByModel)\<rparr>,
                      \<lparr>ds_label = ''Deleted'', ds_data = int_data (map (\<lambda>m. snd (snd m)) agentByModel)\<rparr>]\<rparr>]\<rparr>))"

definition customReport :: "daily list \<Rightarrow> error + response" where
  "customReport records =
     (let dailyActive = aggregateDailyActiveUsers records;
          features = aggregateByFeature records;
          modelDist = take 8 (aggregateChatModelDistribution records);
          langDist = take 8 (aggregateLanguageDistribution records)
      in and_then (map_throwing (\<lambda>(name, v). table_row name [IntNum v])
           [(''Active Users'',
               countUsersWhere (\<lambda>r. or_zero (r_user_initiated_interaction_count r) > 0) records),
            (''Total Interactions'', sumField r_user_initiated_interaction_count records),
            (''Code Generations'', sumField r_code_generation_activity_count records),
            (''Lines Added'', sumField r_loc_added_sum records)])
           (\<lambda>rows. Inr
              \<lparr>markdown = join ''\<newline>''
                 ([''# Custom Report'',
                   ''\<newline>**Period:** '' @ str_or_null (fst (getDateRange records)) @ '' to ''
                     @ str_or_null (snd (getDateRange records)),
                   ''\<newline>| Metric | Value |'',
                   ''|--------|-------|''] @ rows),
               chartData = None,
               chartsData = Some
                 [\<lparr>c_title = Some ''Daily Active Users'', c_type = ''line'', c_stacked = False,
                   c_labels = map du_day dailyActive,
                   c_datasets = [\<lparr>ds_label = ''Active Users'', ds_data = int_data (map users dailyActive)\<rparr>]\<rparr>,
                  \<lparr>c_title = Some ''Feature Usage'', c_type = ''bar'', c_stacked = False,
                   c_labels = map (\<lambda>f. display_or_name (fst f)) features,
                   c_datasets = [\<lparr>ds_label = ''Interactions'',
                                  ds_data = int_data (map (\<lambda>f. f_interactions (snd f)) features)\<rparr>]\<rparr>,
                  \<lparr>c_title = Some ''Model Distribution'', c_type = ''pie'', c_stacked = False,
                   c_labels = map fst modelDist,
                   c_datasets = [\<lparr>ds_label = ''Interactions'', ds_data = int_data (map snd modelDist)\<rparr>]\<rparr>,
                  \<lparr>c_title = Some ''Language Distribution'', c_type = ''pie'', c_stacked = False,
                   c_labels = map fst langDist,
                   c_datasets = [\<lparr>ds_label = ''Code Generations'', ds_data = int_data (map snd langDist)\<rparr>]\<rparr>]\<rparr>))"

definition userResponse :: "string \<Rightarrow> error + response" where
  "userResponse name =
     (case getUserData name of
        None \<Rightarrow> Inr \<lparr>markdown = ''No data found for user **@'' @ name @ ''**.'',
                      chartData = None, chartsData = None\<rparr>
      | Some userData \<Rightarrow>
          and_then (map_throwing (\<lambda>(label, v). table_row label [IntNum v])
            [(''Total Interactions'', ud_interactions userData),
             (''Code Generations'', ud_codeGenerated userData),
             (''LOC Added'', ud_locAdded userData),
             (''LOC Deleted'', ud_locDeleted userData)])
            (\<lambda>rows. Inr
               \<lparr>markdown = join ''\<newline>''
                  ([''# User Report: @'' @ login userData,
                    ''\<newline>| Metric | Value |'',
                    ''|--------|-------|''] @ rows @
                   [''| Days Active | '' @ dec (daysActive userData) @ '' |'',
                    ''| Used Agent | '' @ (if usedAgent userData then ''Yes'' else ''No'') @ '' |'',
                    ''| Used Chat | '' @ (if usedChat userData then ''Yes'' else ''No'') @ '' |'']),
                chartData = Some
                  \<lparr>c_title = None, c_type = ''line'', c_stacked = False,
                   c_labels = map fst (dailyTrends userData),
                   c_datasets =
                     [\<lparr>ds_label = ''Interactions'',
                       ds_data = int_data (map (\<lambda>d. fst (snd d)) (dailyTrends userData))\<rparr>,
                      \<lparr>ds_label = ''Code Generated'',
                       ds_data = int_data (map (\<lambda>d. snd (snd d)) (dailyTrends userData))\<rparr>]\<rparr>,
                chartsData = None\<rparr>))"

definition topUsersResponse :: "string \<Rightarrow> error + response" where
  "topUsersResponse lower =
     (let limit = (case limitMatch lower of Some ds \<Rightarrow> parseInt ds | None \<Rightarrow> 10);
          topUsers = aggregateTopUsers limit
      in and_then
           (map_throwing (\<lambda>(u, i).
              and_then (map_throwing fmt
                 [IntNum (ud_interactions u), IntNum (ud_codeGenerated u), IntNum (ud_locAdded u)])
                (\<lambda>cs. Inr (''| '' @ join '' | '' ([dec (i + 1), login u] @ cs @ [dec (daysActive u)]) @ '' |'')))
              (zip topUsers [0..<length topUsers]))
           (\<lambda>rows. Inr
              \<lparr>markdown = join ''\<newline>''
                 ([''# Top '' @ dec limit @ '' Users by Interactions'',
                   ''\<newline>| Rank | User | Interactions | Code Generated | LOC Added | Days Active |'',
                   ''|------|------|-------------|----------------|-----------|-------------|''] @ rows),
               chartData = Some
                 \<lparr>c_title = None, c_type = ''bar'', c_stacked = False,
                  c_labels = map login topUsers,
                  c_datasets = [\<lparr>ds_label = ''Interactions'',
                                 ds_data = int_data (map ud_interactions topUsers)\<rparr>]\<rparr>,
               chartsData = None\<rparr>))"

definition trendsResponse :: "daily list \<Rightarrow> error + response" where
  "trendsResponse records =
     (let trends = aggregateByDay records
      in and_then
           (map_throwing (\<lambda>t. table_row (fst t)
              [IntNum (t_activeUsers (snd t)), IntNum (t_interactions (snd t)),
               IntNum (t_codeGenerated (snd t))]) trends)
           (\<lambda>rows. Inr
              \<lparr>markdown = join ''\<newline>''
                 ([''# Usage Trends'',
                   ''\<newline>| Day | Active Users | Interactions | Code Generated |'',
                   ''|-----|-------------|-------------|----------------|''] @ rows),
               chartData = Some
                 \<lparr>c_title = None, c_type = ''line'', c_stacked = False,
                  c_labels = map fst trends,
                  c_datasets =
                    [\<lparr>ds_label = ''Active Users'', ds_data = int_data (map (\<lambda>t. t_activeUsers (snd t)) trends)\<rparr>,
                     \<lparr>ds_label = ''Interactions'', ds_data = int_data (map (\<lambda>t. t_interactions (snd t)) trends)\<rparr>]\<rparr>,
               chartsData = None\<rparr>))"

definition languagesResponse :: "daily list \<Rightarrow> error + response" where
  "languagesResponse records =
     (let languages = aggregateByLanguage records
      in and_then
           (map_throwing (\<lambda>l. table_row (fst l)
              [IntNum (codeGenerated (snd l)), IntNum (locAdded (snd l))]) languages)
           (\<lambda>rows. Inr
              \<lparr>markdown = join ''\<newline>''
                 ([''# Language Breakdown'',
                   ''\<newline>| Language | Code Generated | LOC Added |'',
                   ''|----------|----------------|-----------|''] @ rows),
               chartData = Some
                 \<lparr>c_title = None, c_type = ''bar'', c_stacked = False,
                  c_labels = map fst languages,
                  c_datasets = [\<lparr>ds_label = ''Code Generated'',
                                 ds_data = int_data (map (\<lambda>l. codeGenerated (snd l)) languages)\<rparr>]\<rparr>,
               chartsData = None\<rparr>))"

definition modelsResponse :: "daily list \<Rightarrow> error + response" where
  "modelsResponse records =
     (let models = aggregateByModel records
      in and_then
           (map_throwing (\<lambda>m. table_row (fst m)
              [IntNum (u_interactions (snd m)), IntNum (u_codeGenerated (snd m))]) models)
           (\<lambda>rows. Inr
              \<lparr>markdown = join ''\<newline>''
                 ([''# Model Usage'',
                   ''\<newline>| Model | Interactions | Code Generated |'',
                   ''|-------|-------------|----------------|''] @ rows),
               chartData = Some
                 \<lparr>c_title = None, c_type = ''bar'', c_stacked = False,
                  c_labels = map fst models,
                  c_datasets = [\<lparr>ds_label = ''Interactions'',
                                 ds_data = int_data (map (\<lambda>m. u_interactions (snd m)) models)\<rparr>]\<rparr>,
               chartsData = None\<rparr>))"

definition featuresResponse :: "daily list \<Rightarrow> error + response" where
  "featuresResponse records =
     (let features = aggregateByFeature records
      in and_then
           (map_throwing (\<lambda>f. table_row (fst f)
              [IntNum (f_interactions (snd f)), IntNum (f_codeGenerated (snd f)),
               IntNum (f_locAdded (snd f))]) features)
           (\<lambda>rows. Inr
              \<lparr>markdown = join ''\<newline>''
                 ([''# Feature Comparison'',
                   ''\<newline>| Feature | Interactions | Code Generated | LOC Added |'',
                   ''|---------|-------------|----------------|-----------|''] @ rows),
               chartData = Some
                 \<lparr>c_title = None, c_type = ''bar'', c_stacked = False,
                  c_labels = map fst features,
                  c_datasets =
                    [\<lparr>ds_label = ''Interactions'',
                      ds_data = int_data (map (\<lambda>f. f_interactions (snd f)) features)\<rparr>,
                     \<lparr>ds_label = ''Code Generated'',
                      ds_data = int_data (map (\<lambda>f. f_codeGenerated (snd f)) features)\<rparr>]\<rparr>,
               chartsData = None\<rparr>))"

text \<open>
  The rows of \<^verbatim>\<open>aggregateByIDE\<close> are \<^verbatim>\<open>{ ide, interactions, codeGenerated }\<close>: reading
  \<^verbatim>\<open>i.users\<close> yields \<^verbatim>\<open>undefined\<close>.
\<close>

definition ide_users :: "string \<times> usage_totals \<Rightarrow> jsnum" where
  "ide_users i = Undefined"

definition ideResponse :: "daily list \<Rightarrow> error + response" where
  "ideResponse records =
     (let ides = aggregateByIDE records
      in and_then
           (map_throwing (\<lambda>i. table_row (fst i) [ide_users i, IntNum (u_interactions (snd i))]) ides)
           (\<lambda>rows. Inr
              \<lparr>markdown = join ''\<newline>''
                 ([''# IDE Distribution'',
                   ''\<newline>| IDE | Users | Interactions |'',
                   ''|-----|-------|-------------|''] @ rows),
               chartData = Some
                 \<lparr>c_title = None, c_type = ''pie'', c_stacked = False,
                  c_labels = map fst ides,
                  c_datasets = [\<lparr>ds_label = ''Users'', ds_data = map ide_users ides\<rparr>]\<rparr>,
               chartsData = None\<rparr>))"

text \<open>Agent and chat activity, as the summary branch (and the executive summary) sums them.\<close>

definition agentChatActivity :: "daily list \<Rightarrow> int \<times> int" where
  "agentChatActivity records =
     foldl (\<lambda>(agentAct, chatAct) f.
        (if feature f \<in> set AGENT_FEATURES
         then agentAct + (or_zero (user_initiated_interaction_count f)
                          + or_zero (code_generation_activity_count f))
         else agentAct,
         if feature f \<in> set CHAT_MODES
         then chatAct + or_zero (user_initiated_interaction_count f)
         else chatAct))
       (0, 0) (entries totals_by_feature records)"

definition summaryResponse :: "daily list \<Rightarrow> error + response" where
  "summaryResponse records =
     (let period = getDateRange records;
          act = agentChatActivity records
      in and_then (map_throwing (\<lambda>(name, v). table_row name [IntNum v])
           [(''Peak Daily Active Users'', getUniqueUsers_size records),
            (''Total Interactions'', sumField r_user_initiated_interaction_count records),
            (''Code Generations'', sumField r_code_generation_activity_count records),
            (''LOC Added'', sumField r_loc_added_sum records),
            (''LOC Deleted'', sumField r_loc_deleted_sum records),
            (''Agent Activity'', fst act),
            (''Chat Activity'', snd act)])
           (\<lambda>rows. Inr
              \<lparr>markdown = join ''\<newline>''
                 ([''# Summary Statistics'',
                   ''**Period:** '' @ str_or_null (fst period) @ '' to '' @ str_or_null (snd period)
                     @ ''\<newline>'',
                   ''| Metric | Value |'',
                   ''|--------|-------|''] @ rows),
               chartData = Some
                 \<lparr>c_title = None, c_type = ''doughnut'', c_stacked = False,
                  c_labels = [''Interactions'', ''Code Generations''],
                  c_datasets = [\<lparr>ds_label = ''Activity'',
                     ds_data = int_data [sumField r_user_initiated_interaction_count records,
                                         sumField r_code_generation_activity_count records]\<rparr>]\<rparr>,
               chartsData = None\<rparr>))"

definition fallbackResponse :: "daily list \<Rightarrow> error + response" where
  "fallbackResponse records =
     (let period = getDateRange records
      in and_then (map_throwing fmt
           [IntNum (getUniqueUsers_size records),
            IntNum (sumField r_user_initiated_interaction_count records),
            IntNum (sumField r_code_generation_activity_count records),
            IntNum (sumField r_loc_added_sum records)])
           (\<lambda>cs. Inr
              \<lparr>markdown = join ''\<newline>''
                 [''# Query Results'',
                  ''\<newline>I wasn'' @ [CHR 0x27] @ ''t sure exactly what you were looking for. Here''
                    @ [CHR 0x27] @ ''s a general summary:\<newline>'',
                  ''- **'' @ cs ! 0 @ ''** total users, period '' @ str_or_null (fst period) @ '' to ''
                    @ str_or_null (snd period),
                  ''- **'' @ cs ! 1 @ ''** total interactions'',
                  ''- **'' @ cs ! 2 @ ''** code generations'',
                  ''- **'' @ cs ! 3 @ ''** lines of code added'',
                  ''\<newline>Try asking about: top users, trends, languages, models, features, IDEs, or a specific @username.''],
               chartData = None, chartsData = None\<rparr>))"

subsection \<open>The query handler\<close>

definition handleQuery :: "daily list \<Rightarrow> string \<Rightarrow> error + response" where
  "handleQuery records prompt =
     (let lower = toLowerCase prompt
      in if isReport prompt then
           (if str_includes lower ''language'' \<or> str_includes lower ''lang'' then languageReport records
            else if str_includes lower ''model'' then modelReport records
            else if str_includes lower ''agent'' \<or> str_includes lower ''adoption''
                    \<or> str_includes lower ''feature'' then featureReport records
            else if str_includes lower ''trend'' \<or> str_includes lower ''usage''
                    \<or> str_includes lower ''active'' \<or> str_includes lower ''daily''
                    \<or> str_includes lower ''weekly'' then trendReport records
            else if str_includes lower ''code'' \<or> str_includes lower ''loc''
                    \<or> str_includes lower ''line'' then codeReport records
            else customReport records)
         else case userMatch prompt of
           Some name \<Rightarrow> userResponse name
         | None \<Rightarrow>
           (if str_includes lower ''top'' \<and> str_includes lower ''user'' then topUsersResponse lower
            else if str_includes lower ''trend'' then trendsResponse records
            else if str_includes lower ''language'' then languagesResponse records
            else if str_includes lower ''model'' then modelsResponse records
            else if str_includes lower ''feature'' \<or> str_includes lower ''compare''
                    \<or> str_includes lower ''agent'' \<or> str_includes lower ''chat''
            then featuresResponse records
            else if str_includes lower ''ide'' then ideResponse records
            else if str_includes lower ''active'' \<or> str_includes lower ''summary''
                    \<or> str_includes lower ''how many'' then summaryResponse records
            else fallbackResponse records))"


subsection \<open>Report compilation\<close>

text \<open>
  The block of \<^verbatim>\<open>generateReports\<close> that builds \<^verbatim>\<open>preGeneratedReports['usage-trends']\<close>
  from \<^verbatim>\<open>period = getDateRange()\<close> and \<^verbatim>\<open>trends = aggregateByDay()\<close>. The two peak days
  are found with \<^verbatim>\<open>trends.reduce(...)\<close> without an initial value.
\<close>

definition usageTrendsReport :: "daily list \<Rightarrow> error + response" where
  "usageTrendsReport records =
     (let period = getDateRange records;
          trends = aggregateByDay records
      in and_then
           (map_throwing (\<lambda>t. table_row (fst t)
              [IntNum (t_activeUsers (snd t)), IntNum (t_interactions (snd t)),
               IntNum (t_codeGenerated (snd t)), IntNum (t_locAdded (snd t))]) trends)
           (\<lambda>rows.
         and_then (fmt (Math_max (map (\<lambda>t. t_activeUsers (snd t)) trends))) (\<lambda>peakUsers.
         and_then (reduce1 (\<lambda>a b. if t_activeUsers (snd a) > t_activeUsers (snd b) then a else b) trends)
           (\<lambda>peakUsersDay.
         and_then (fmt (Math_max (map (\<lambda>t. t_interactions (snd t)) trends))) (\<lambda>peakInteractions.
         and_then (reduce1 (\<lambda>a b. if t_interactions (snd a) > t_interactions (snd b) then a else b) trends)
           (\<lambda>peakInteractionsDay. Inr
              \<lparr>markdown = join ''\<newline>''
                 ([''# '' @ [CHR 0xF0, CHR 0x9F, CHR 0x93, CHR 0x88] @ '' Usage Trends'',
                   ''**Period:** '' @ str_or_null (fst period) @ '' to '' @ str_or_null (snd period)
                     @ ''\<newline>'',
                   ''| Day | Active Users | Interactions | Code Generated | LOC Added |'',
                   ''|-----|-------------|-------------|----------------|-----------|''] @ rows @
                  ['''',
                   ''## Summary'',
                   ''- Peak active users: **'' @ peakUsers @ ''** on '' @ fst peakUsersDay,
                   ''- Peak interactions: **'' @ peakInteractions @ ''** on '' @ fst peakInteractionsDay]),
               chartData = Some
                 \<lparr>c_title = None, c_type = ''line'', c_stacked = False,
                  c_labels = map fst trends,
                  c_datasets =
                    [\<lparr>ds_label = ''Active Users'', ds_data = int_data (map (\<lambda>t. t_activeUsers (snd t)) trends)\<rparr>,
                     \<lparr>ds_label = ''Interactions'', ds_data = int_data (map (\<lambda>t. t_interactions (snd t)) trends)\<rparr>]\<rparr>,
               chartsData = None\<rparr>))))))"

text \<open>\<^verbatim>\<open>String(n)\<close> for an integer, \<^verbatim>\<open>(a / b).toFixed(1)\<close> and \<^verbatim>\<open>fmtShort\<close>.\<close>

definition str_int :: "int \<Rightarrow> string" where
  "str_int i = (if i < 0 then ''-'' @ dec (nat (- i)) else dec (nat i))"

definition quotient1 :: "int \<Rightarrow> int \<Rightarrow> string" where
  "quotient1 a b =
     (if b = 0 then (if a = 0 then ''NaN'' else if a > 0 then ''Infinity'' else ''-Infinity'')
      else toFixed1 (of_int a / of_int b))"

definition fmtShort :: "int \<Rightarrow> string" where
  "fmtShort n =
     (if n \<ge> 1000000000 then quotient1 n 1000000000 @ ''b''
      else if n \<ge> 1000000 then quotient1 n 1000000 @ ''m''
      else if n \<ge> 1000 then quotient1 n 1000 @ ''k''
      else str_int n)"

definition aggregateCodeCompletionAcceptanceRate :: "daily list \<Rightarrow> (string \<times> rat) list" where
  "aggregateCodeCompletionAcceptanceRate records =
     map (\<lambda>d. (fst d, share (snd (snd d)) (fst (snd d)))) (aggregateCodeCompletions records)"

definition aggregateModelUsagePerLanguage :: "daily list \<Rightarrow> string list \<times> (string \<times> rat list) list" where
  "aggregateModelUsagePerLanguage records =
     (let es = entries totals_by_language_model records;
          topLangs = topCategories
            (categoryTotals language (\<lambda>l. or_zero (code_generation_activity_count l)) es);
          inTop = filter (\<lambda>l. language l \<in> set topLangs) es;
          topModels = topCategories
            (categoryTotals model (\<lambda>l. or_zero (code_generation_activity_count l)) inTop);
          data0 = foldl (\<lambda>data lang.
              dict_set lang (dict_set ''Other'' 0 (foldl (\<lambda>d m. dict_set m 0 d) [] topModels)) data)
            [] topLangs;
          data = foldl (\<lambda>data l.
              dict_upd (language l) []
                (\<lambda>inner. if model l \<in> set topModels
                   then dict_upd (model l) 0 (\<lambda>v. v + or_zero (code_generation_activity_count l)) inner
                   else dict_upd ''Other'' 0 (\<lambda>v. v + or_zero (code_generation_activity_count l)) inner)
                data)
            data0 inTop;
          labels = topLangs;
          seriesKeys = topModels @ [''Other'']
      in (labels,
          map (\<lambda>m. (m, map (\<lambda>lang.
                  let inner = or_empty (map_of data lang);
                      tot = foldl (\<lambda>s v. s + v) 0 (map snd inner)
                  in share (or_zero (map_of inner m)) tot) labels))
            seriesKeys))"

definition aggregateUserCodeChangesByModel :: "daily list \<Rightarrow> (string \<times> int \<times> int) list" where
  "aggregateUserCodeChangesByModel records =
     codeChangesBy (\<lambda>m. feature m \<notin> set AGENT_FEATURES) model loc_suggested_to_add_sum loc_added_sum
       (entries totals_by_model_feature records)"

definition line_chart :: "string \<Rightarrow> string list \<Rightarrow> dataset list \<Rightarrow> chart" where
  "line_chart title labels datasets =
     \<lparr>c_title = Some title, c_type = ''line'', c_stacked = False, c_labels = labels,
      c_datasets = datasets\<rparr>"

definition bar_chart :: "string \<Rightarrow> bool \<Rightarrow> string list \<Rightarrow> dataset list \<Rightarrow> chart" where
  "bar_chart title stacked labels datasets =
     \<lparr>c_title = Some title, c_type = ''bar'', c_stacked = stacked, c_labels = labels,
      c_datasets = datasets\<rparr>"

definition pie_chart :: "string \<Rightarrow> string list \<Rightarrow> dataset list \<Rightarrow> chart" where
  "pie_chart title labels datasets =
     \<lparr>c_title = Some title, c_type = ''pie'', c_stacked = False, c_labels = labels,
      c_datasets = datasets\<rparr>"

definition copilotUsageReport :: "daily list \<Rightarrow> error + response" where
  "copilotUsageReport records =
     (let dailyActive = aggregateDailyActiveUsers records;
          weeklyActive = aggregateWeeklyActiveUsers records;
          avgChat = aggregateAvgChatRequestsPerActiveUser records;
          chatMode = aggregateRequestsPerChatMode records;
          completions = aggregateCodeCompletions records;
          acceptRate = aggregateCodeCompletionAcceptanceRate records;
          modelPerDay = aggregateModelUsagePerDay records;
          chatModelDist = aggregateChatModelDistribution records;
          modelPerChatMode = aggregateModelUsagePerChatMode records;
          langPerDay = aggregateLanguageUsagePerDay records;
          langDist = aggregateLanguageDistribution records;
          modelPerLang = aggregateModelUsagePerLanguage records;
          maxDau = foldl (\<lambda>m r. max m (or_zero (daily_active_users r))) 0 records;
          avgDau = (if length records > 0
                    then Math_round_div (foldl (\<lambda>s r. s + or_zero (daily_active_users r)) 0 records)
                           (int (length records))
                    else 0);
          activity = foldl (\<lambda>(totalActivity, agentActivity) f.
              let act = or_zero (user_initiated_interaction_count f)
                        + or_zero (code_generation_activity_count f)
              in (totalActivity + act,
                  if feature f \<in> set AGENT_FEATURES then agentActivity + act else agentActivity))
            (0, 0) (entries totals_by_feature records);
          agentAdoptionPct = (if fst activity > 0 then percent1 (snd activity) (fst activity) else ''0.0'');
          mostUsedChatModel = (case chatModelDist of [] \<Rightarrow> ''N/A'' | m # _ \<Rightarrow> fst m)
      in and_then (fmt (IntNum avgDau)) (\<lambda>avg.
         and_then (fmt (IntNum maxDau)) (\<lambda>peak. Inr
           \<lparr>markdown = join ''\<newline>''
              [''# Copilot IDE Usage'',
               '''',
               ''| Avg Daily Active Users | Peak DAU | Agent Activity | Most Used Chat Model |'',
               ''|:---:|:---:|:---:|:---:|'',
               ''| **'' @ avg @ ''** | **'' @ peak @ ''** | **'' @ agentAdoptionPct
                 @ ''%** of total | **'' @ mostUsedChatModel @ ''** |''],
            chartData = None,
            chartsData = Some
              [line_chart ''IDE Daily Active Users'' (map du_day dailyActive)
                 [\<lparr>ds_label = ''Active Users'', ds_data = int_data (map users dailyActive)\<rparr>],
               line_chart ''IDE Weekly Active Users'' (map du_day weeklyActive)
                 [\<lparr>ds_label = ''Weekly Active Users'', ds_data = int_data (map users weeklyActive)\<rparr>],
               line_chart ''Average Chat Requests per Active User'' (map fst avgChat)
                 [\<lparr>ds_label = ''Avg Requests'', ds_data = map (\<lambda>d. RatNum (snd d)) avgChat\<rparr>],
               bar_chart ''Requests per Chat Mode'' True (pd_days chatMode)
                 (series_datasets (pd_series chatMode)),
               line_chart ''Code Completions'' (map fst completions)
                 [\<lparr>ds_label = ''Shown'', ds_data = int_data (map (\<lambda>d. fst (snd d)) completions)\<rparr>,
                  \<lparr>ds_label = ''Accepted'', ds_data = int_data (map (\<lambda>d. snd (snd d)) completions)\<rparr>],
               line_chart ''Code Completions Acceptance Rate'' (map fst acceptRate)
                 [\<lparr>ds_label = ''Acceptance Rate (%)'', ds_data = map (\<lambda>d. RatNum (snd d)) acceptRate\<rparr>],
               bar_chart ''Model Usage per Day'' True (pd_days modelPerDay)
                 (series_datasets (pd_series modelPerDay)),
               pie_chart ''Chat Model Usage'' (map fst chatModelDist)
                 [\<lparr>ds_label = ''Interactions'', ds_data = int_data (map snd chatModelDist)\<rparr>],
               bar_chart ''Model Usage per Chat Mode'' False (fst modelPerChatMode)
                 (series_datasets (snd modelPerChatMode)),
               bar_chart ''Language Usage per Day'' True (pd_days langPerDay)
                 (series_datasets (pd_series langPerDay)),
               pie_chart ''Language Usage'' (map fst langDist)
                 [\<lparr>ds_label = ''Code Generations'', ds_data = int_data (map snd langDist)\<rparr>],
               bar_chart ''Model Usage per Language'' False (fst modelPerLang)
                 (series_datasets (snd modelPerLang))]\<rparr>)))"

definition pair_datasets :: "string \<Rightarrow> string \<Rightarrow> (string \<times> int \<times> int) list \<Rightarrow> dataset list" where
  "pair_datasets first second rows =
     [\<lparr>ds_label = first, ds_data = int_data (map (\<lambda>r. fst (snd r)) rows)\<rparr>,
      \<lparr>ds_label = second, ds_data = int_data (map (\<lambda>r. snd (snd r)) rows)\<rparr>]"

definition codeGenerationReport :: "daily list \<Rightarrow> error + response" where
  "codeGenerationReport records =
     (let totalLocAdded = sumField r_loc_added_sum records;
          totalLocDeleted = sumField r_loc_deleted_sum records;
          totalDays = int (length records);
          dailyLoc = aggregateDailyLocAddedDeleted records;
          userChanges = aggregateUserInitiatedCodeChanges records;
          agentChanges = aggregateAgentInitiatedCodeChanges records;
          userByModel = aggregateUserCodeChangesByModel records;
          agentByModel = aggregateAgentCodeChangesByModel records;
          userByLang = aggregateUserCodeChangesByLanguage records;
          agentByLang = aggregateAgentCodeChangesByLanguage records;
          totalLocChanged = totalLocAdded + totalLocDeleted;
          agentLocTotal = fst agentChanges + snd agentChanges;
          agentContribPct = (if totalLocChanged > 0 then percent1 agentLocTotal totalLocChanged else ''0.0'');
          avgAgentDeletedPerDay = (if totalDays > 0 then Math_round_div (snd agentChanges) totalDays else 0)
      in and_then (fmt (IntNum totalLocChanged)) (\<lambda>changed.
         and_then (fmt (IntNum avgAgentDeletedPerDay)) (\<lambda>avgDeleted. Inr
           \<lparr>markdown = join ''\<newline>''
              [''# IDE Code Generation'',
               '''',
               ''| Lines of Code Changed with AI | Agent Contribution | Avg Agent Deletions/Day |'',
               ''|:---:|:---:|:---:|'',
               ''| **'' @ fmtShort totalLocChanged @ ''** ('' @ changed @ '') | **'' @ agentContribPct
                 @ ''%** | **'' @ avgDeleted @ ''** |''],
            chartData = None,
            chartsData = Some
              [bar_chart ''Daily Total of Lines Added and Deleted'' False (map fst dailyLoc)
                 (pair_datasets ''Added'' ''Deleted'' dailyLoc),
               bar_chart ''User-Initiated Code Changes'' False [''Suggested to Add'', ''Actually Added'']
                 [\<lparr>ds_label = ''Lines of Code'', ds_data = int_data [fst userChanges, snd userChanges]\<rparr>],
               bar_chart ''Agent-Initiated Code Changes'' False [''Added'', ''Deleted'']
                 [\<lparr>ds_label = ''Lines of Code'', ds_data = int_data [fst agentChanges, snd agentChanges]\<rparr>],
               bar_chart ''User-Initiated Code Changes per Model'' False (map fst userByModel)
                 (pair_datasets ''Suggested'' ''Added'' userByModel),
               bar_chart ''Agent-Initiated Code Changes per Model'' False (map fst agentByModel)
                 (pair_datasets ''Added'' ''Deleted'' agentByModel),
               bar_chart ''User-Initiated Code Changes per Language'' False (map fst userByLang)
                 (pair_datasets ''Suggested'' ''Added'' userByLang),
               bar_chart ''Agent-Initiated Code Changes per Language'' False (map fst agentByLang)
                 (pair_datasets ''Added'' ''Deleted'' agentByLang)]\<rparr>)))"

definition executiveSummaryReport :: "daily list \<Rightarrow> error + response" where
  "executiveSummaryReport records =
     (let period = getDateRange records;
          activeUsers = getUniqueUsers_size records;
          totalInteractions = sumField r_user_initiated_interaction_count records;
          totalCodeGenerated = sumField r_code_generation_activity_count records;
          totalLocAdded = sumField r_loc_added_sum records;
          totalLocDeleted = sumField r_loc_deleted_sum records;
          totalDays = int (length records);
          act = agentChatActivity records
      in and_then (map_throwing (\<lambda>(name, v). table_row name [IntNum v])
           [(''Peak Daily Active Users'', activeUsers),
            (''Total Interactions'', totalInteractions),
            (''Code Generations'', totalCodeGenerated),
            (''Lines Added'', totalLocAdded),
            (''Lines Deleted'', totalLocDeleted),
            (''Agent Activity (interactions)'', fst act),
            (''Chat Activity (interactions)'', snd act)])
           (\<lambda>rows. Inr
              \<lparr>markdown = join ''\<newline>''
                 ([''# '' @ [CHR 0xF0, CHR 0x9F, CHR 0x93, CHR 0x8A] @ '' Executive Summary'',
                   ''**Period:** '' @ str_or_null (fst period) @ '' to '' @ str_or_null (snd period)
                     @ ''\<newline>'',
                   ''| Metric | Value |'',
                   ''|--------|-------|''] @ rows @
                  ['''',
                   ''## Key Insights'',
                   ''- Average **''
                     @ (if activeUsers > 0 then quotient1 totalInteractions activeUsers else ''0'')
                     @ ''** interactions per active user per day.'',
                   ''- Agent features account for **''
                     @ (if totalInteractions > 0
                        then percent1 (fst act) (totalInteractions + totalCodeGenerated) else ''0'')
                     @ ''%** of total activity.'',
                   ''- Average **''
                     @ (if activeUsers > 0 then str_int (Math_round_div totalLocAdded totalDays) else ''0'')
                     @ ''** lines of code added per day.'']),
               chartData = Some
                 \<lparr>c_title = None, c_type = ''doughnut'', c_stacked = False,
                  c_labels = [''Interactions'', ''Code Generations''],
                  c_datasets = [\<lparr>ds_label = ''Activity Split'',
                                 ds_data = int_data [totalInteractions, totalCodeGenerated]\<rparr>]\<rparr>,
               chartsData = None\<rparr>))"

definition featureAdoptionReport :: "daily list \<Rightarrow> error + response" where
  "featureAdoptionReport records =
     (let features = aggregateByFeature records
      in and_then
           (map_throwing (\<lambda>f. table_row (fst f)
              [IntNum (f_interactions (snd f)), IntNum (f_codeGenerated (snd f)),
               IntNum (f_locAdded (snd f))]) features)
           (\<lambda>rows.
         and_then (fmt (IntNum (case features of [] \<Rightarrow> 0 | f # _ \<Rightarrow> f_interactions (snd f))))
           (\<lambda>most. Inr
              \<lparr>markdown = join ''\<newline>''
                 ([''# '' @ [CHR 0xF0, CHR 0x9F, CHR 0xA4, CHR 0x96] @ '' Feature Adoption'',
                   ''\<newline>| Feature | Interactions | Code Generated | LOC Added |'',
                   ''|---------|-------------|----------------|-----------|''] @ rows @
                  ['''',
                   ''## Insights'',
                   ''- Most used feature: **''
                     @ (case features of [] \<Rightarrow> ''undefined'' | f # _ \<Rightarrow> fst f)
                     @ ''** with '' @ most @ '' interactions.'',
                   ''- '' @ dec (length features) @ '' distinct features in use across the organization.'']),
               chartData = Some
                 \<lparr>c_title = None, c_type = ''bar'', c_stacked = False,
                  c_labels = map fst features,
                  c_datasets =
                    [\<lparr>ds_label = ''Interactions'',
                      ds_data = int_data (map (\<lambda>f. f_interactions (snd f)) features)\<rparr>,
                     \<lparr>ds_label = ''Code Generated'',
                      ds_data = int_data (map (\<lambda>f. f_codeGenerated (snd f)) features)\<rparr>]\<rparr>,
               chartsData = None\<rparr>)))"

definition languageBreakdownReport :: "daily list \<Rightarrow> error + response" where
  "languageBreakdownReport records =
     (let languages = aggregateByLanguage records
      in and_then
           (map_throwing (\<lambda>l. table_row (fst l)
              [IntNum (codeGenerated (snd l)), IntNum (locAdded (snd l))]) languages)
           (\<lambda>rows. Inr
              \<lparr>markdown = join ''\<newline>''
                 ([''# '' @ [CHR 0xF0, CHR 0x9F, CHR 0x92, CHR 0xBB] @ '' Language Breakdown'',
                   ''\<newline>Top 15 languages by code generation activity.\<newline>'',
                   ''| Language | Code Generated | LOC Added |'',
                   ''|----------|----------------|-----------|''] @ rows),
               chartData = Some
                 \<lparr>c_title = None, c_type = ''bar'', c_stacked = False,
                  c_labels = map fst languages,
                  c_datasets =
                    [\<lparr>ds_label = ''Code Generated'',
                      ds_data = int_data (map (\<lambda>l. codeGenerated (snd l)) languages)\<rparr>,
                     \<lparr>ds_label = ''LOC Added'',
                      ds_data = int_data (map (\<lambda>l. locAdded (snd l)) languages)\<rparr>]\<rparr>,
               chartsData = None\<rparr>))"

definition modelUsageReport :: "daily list \<Rightarrow> error + response" where
  "modelUsageReport records =
     (let models = aggregateByModel records
      in and_then
           (map_throwing (\<lambda>m. table_row (fst m)
              [IntNum (u_interactions (snd m)), IntNum (u_codeGenerated (snd m))]) models)
           (\<lambda>rows. Inr
              \<lparr>markdown = join ''\<newline>''
                 ([''# '' @ [CHR 0xF0, CHR 0x9F, CHR 0xA7, CHR 0xA0] @ '' Model Usage'',
                   ''\<newline>Top 15 models by interaction count.\<newline>'',
                   ''| Model | Interactions | Code Generated |'',
                   ''|-------|-------------|----------------|''] @ rows),
               chartData = Some
                 \<lparr>c_title = None, c_type = ''bar'', c_stacked = False,
                  c_labels = map fst models,
                  c_datasets =
                    [\<lparr>ds_label = ''Interactions'',
                      ds_data = int_data (map (\<lambda>m. u_interactions (snd m)) models)\<rparr>,
                     \<lparr>ds_label = ''Code Generated'',
                      ds_data = int_data (map (\<lambda>m. u_codeGenerated (snd m)) models)\<rparr>]\<rparr>,
               chartsData = None\<rparr>))"

definition ideDistributionReport :: "daily list \<Rightarrow> error + response" where
  "ideDistributionReport records =
     (let ides = aggregateByIDE records
      in and_then
           (map_throwing (\<lambda>i. table_row (fst i)
              [IntNum (u_interactions (snd i)), IntNum (u_codeGenerated (snd i))]) ides)
           (\<lambda>rows. Inr
              \<lparr>markdown = join ''\<newline>''
                 ([''# '' @ [CHR 0xF0, CHR 0x9F, CHR 0x96, CHR 0xA5, CHR 0xEF, CHR 0xB8, CHR 0x8F]
                     @ '' IDE Distribution'',
                   ''\<newline>| IDE | Interactions | Code Generated |'',
                   ''|-----|-------------|----------------|''] @ rows),
               chartData = Some
                 \<lparr>c_title = None, c_type = ''pie'', c_stacked = False,
                  c_labels = map fst ides,
                  c_datasets =
                    [\<lparr>ds_label = ''Interactions'',
                      ds_data = int_data (map (\<lambda>i. u_interactions (snd i)) ides)\<rparr>]\<rparr>,
               chartsData = None\<rparr>))"

definition topUsersReport :: "daily list \<Rightarrow> error + response" where
  "topUsersReport records =
     and_then (map_throwing (\<lambda>(name, v). table_row name [IntNum v])
       [(''Peak Daily Active Users'', getUniqueUsers_size records),
        (''Total Interactions'', sumField r_user_initiated_interaction_count records),
        (''Total Code Generations'', sumField r_code_generation_activity_count records)])
       (\<lambda>rows. Inr
          \<lparr>markdown = join ''\<newline>''
             ([''# '' @ [CHR 0xF0, CHR 0x9F, CHR 0x8F, CHR 0x86] @ '' Top Users'',
               ''\<newline>> Per-user data is not available in enterprise-level reports. This report requires the user-level Copilot metrics export.\<newline>'',
               ''## Enterprise Summary'',
               ''| Metric | Value |'',
               ''|--------|-------|''] @ rows),
           chartData = None, chartsData = None\<rparr>)"

text \<open>
  \<^verbatim>\<open>generateReports\<close> assigns the nine reports to \<^verbatim>\<open>preGeneratedReports\<close> in this order.
  A block that throws ends the call: the reports assigned before stay, the later ones
  are not built. The result is the dictionary reached and the error, if any.
\<close>

fun assign_reports ::
  "(string \<times> (error + response)) list \<Rightarrow> (string \<times> response) list
   \<Rightarrow> (string \<times> response) list \<times> error option" where
  "assign_reports [] reports = (reports, None)"
| "assign_reports ((name, block) # blocks) reports =
     (case block of
        Inl e \<Rightarrow> (reports, Some e)
      | Inr report \<Rightarrow> assign_reports blocks (dict_set name report reports))"

definition generateReports ::
  "daily list \<Rightarrow> (string \<times> response) list \<Rightarrow> (string \<times> response) list \<times> error option" where
  "generateReports records preGeneratedReports =
     assign_reports
       [(''copilot-usage'', copilotUsageReport records),
        (''code-generation'', codeGenerationReport records),
        (''executive-summary'', executiveSummaryReport records),
        (''usage-trends'', usageTrendsReport records),
        (''feature-adoption'', featureAdoptionReport records),
        (''language-breakdown'', languageBreakdownReport records),
        (''model-usage'', modelUsageReport records),
        (''ide-distribution'', ideDistributionReport records),
        (''top-users'', topUsersReport records)]
       preGeneratedReports"

subsection \<open>Refresh entry points\<close>

text \<open>
  The lazy loading of the MCP server (\<^verbatim>\<open>src/mcp/index.js\<close>). JavaScript runs a handler
  without interruption up to its first \<^verbatim>\<open>await\<close>, so a request is one step, and the
  settling of a running \<^verbatim>\<open>loadAllData()\<close> call is another. The state holds the two
  module variables, the calls of \<^verbatim>\<open>loadAllData\<close> that have started and not yet settled
  (each named by a number), and the count of calls started so far.
\<close>

record mcp_state =
  dataLoaded :: bool
  dataLoading :: "nat option"
  running :: "nat list"
  started :: nat

datatype mcp_event = EnsureData | RefreshData | LoadResolved nat | LoadRejected nat

definition mcp_init :: mcp_state where
  "mcp_init = \<lparr>dataLoaded = False, dataLoading = None, running = [], started = 0\<rparr>"

text \<open>Calling \<^verbatim>\<open>loadAllData()\<close> starts a fetch, which runs until it settles.\<close>

definition loadAllData_call :: "mcp_state \<Rightarrow> mcp_state" where
  "loadAllData_call s = s\<lparr>running := running s @ [started s], started := started s + 1\<rparr>"

text \<open>
  \<^verbatim>\<open>ensureData\<close> returns at once when the data is loaded, hands out the stored promise
  when there is one, and otherwise calls \<^verbatim>\<open>loadAllData()\<close> and stores its promise.
  The tool \<^verbatim>\<open>refresh_data\<close> clears both variables and calls \<^verbatim>\<open>loadAllData()\<close> without
  storing the promise. A call that resolves sets \<^verbatim>\<open>dataLoaded\<close> (in the \<^verbatim>\<open>then\<close> of
  \<^verbatim>\<open>ensureData\<close>, after the \<^verbatim>\<open>await\<close> of \<^verbatim>\<open>refresh_data\<close>); a call that rejects sets nothing.
\<close>

fun mcp_step :: "mcp_state \<Rightarrow> mcp_event \<Rightarrow> mcp_state" where
  "mcp_step s EnsureData =
     (if dataLoaded s then s
      else if dataLoading s \<noteq> None then s
      else (loadAllData_call s)\<lparr>dataLoading := Some (started s)\<rparr>)"
| "mcp_step s RefreshData = loadAllData_call (s\<lparr>dataLoaded := False, dataLoading := None\<rparr>)"
| "mcp_step s (LoadResolved p) =
     (if p \<in> set (running s) then s\<lparr>running := removeAll p (running s), dataLoaded := True\<rparr>
      else s)"
| "mcp_step s (LoadRejected p) =
     (if p \<in> set (running s) then s\<lparr>running := removeAll p (running s)\<rparr> else s)"

definition mcp_run :: "mcp_event list \<Rightarrow> mcp_state" where
  "mcp_run evs = foldl mcp_step mcp_init evs"

text \<open>
  \<^verbatim>\<open>POST /api/refresh\<close> of the dashboard server awaits \<^verbatim>\<open>loadAllData()\<close> and then
  compiles the reports; the server keeps no flag and no promise. The state is the list
  of running calls and the count of calls started.
\<close>

datatype api_event = ApiRefresh | ApiLoadSettled nat

fun api_step :: "nat list \<times> nat \<Rightarrow> api_event \<Rightarrow> nat list \<times> nat" where
  "api_step (run, n) ApiRefresh = (run @ [n], n + 1)"
| "api_step (run, n) (ApiLoadSettled p) = (removeAll p run, n)"

definition api_run :: "api_event list \<Rightarrow> nat list \<times> nat" where
  "api_run evs = foldl api_step ([], 0) evs"

subsection \<open>Concrete inputs\<close>

text \<open>An entry and a record with every optional property missing, to build inputs from.\<close>

definition blank_entry :: entry where
  "blank_entry =
     \<lparr>feature = [], language = [], model = [], ide = [],
      user_initiated_interaction_count = None, code_generation_activity_count = None,
      code_acceptance_activity_count = None, loc_added_sum = None, loc_deleted_sum = None,
      loc_suggested_to_add_sum = None\<rparr>"

definition blank_daily :: daily where
  "blank_daily =
     \<lparr>day = [], daily_active_users = None, r_user_initiated_interaction_count = None,
      r_code_generation_activity_count = None, r_loc_added_sum = None, r_loc_deleted_sum = None,
      totals_by_feature = None, totals_by_language_feature = None,
      totals_by_model_feature = None, totals_by_ide = None, totals_by_language_model = None\<rparr>"


text \<open>One day on which sixteen languages generated code.\<close>

definition sixteen_languages :: "daily list" where
  "sixteen_languages =
     [blank_daily\<lparr>day := ''2026-01-01'', totals_by_language_feature := Some
        [blank_entry\<lparr>language := ''ada'', code_generation_activity_count := Some 16\<rparr>,
         blank_entry\<lparr>language := ''bash'', code_generation_activity_count := Some 15\<rparr>,
         blank_entry\<lparr>language := ''c'', code_generation_activity_count := Some 14\<rparr>,
         blank_entry\<lparr>language := ''dart'', code_generation_activity_count := Some 13\<rparr>,
         blank_entry\<lparr>language := ''elixir'', code_generation_activity_count := Some 12\<rparr>,
         blank_entry\<lparr>language := ''fsharp'', code_generation_activity_count := Some 11\<rparr>,
         blank_entry\<lparr>language := ''go'', code_generation_activity_count := Some 10\<rparr>,
         blank_entry\<lparr>language := ''haskell'', code_generation_activity_count := Some 9\<rparr>,
         blank_entry\<lparr>language := ''java'', code_generation_activity_count := Some 8\<rparr>,
         blank_entry\<lparr>language := ''kotlin'', code_generation_activity_count := Some 7\<rparr>,
         blank_entry\<lparr>language := ''lua'', code_generation_activity_count := Some 6\<rparr>,
         blank_entry\<lparr>language := ''matlab'', code_generation_activity_count := Some 5\<rparr>,
         blank_entry\<lparr>language := ''nim'', code_generation_activity_count := Some 4\<rparr>,
         blank_entry\<lparr>language := ''ocaml'', code_generation_activity_count := Some 3\<rparr>,
         blank_entry\<lparr>language := ''perl'', code_generation_activity_count := Some 2\<rparr>,
         blank_entry\<lparr>language := ''ruby'', code_generation_activity_count := Some 1\<rparr>]\<rparr>]"


text \<open>One day with one IDE entry.\<close>

definition one_ide :: "daily list" where
  "one_ide =
     [blank_daily\<lparr>day := ''2026-01-01'', totals_by_ide := Some
        [blank_entry\<lparr>ide := ''vscode'', user_initiated_interaction_count := Some 7\<rparr>]\<rparr>]"

text \<open>Two days on which a model is itself named \<^verbatim>\<open>Other\<close>.\<close>

definition other_model :: "daily list" where
  "other_model =
     [blank_daily\<lparr>day := ''2026-01-01'', totals_by_model_feature := Some
        [blank_entry\<lparr>model := ''Other'', user_initiated_interaction_count := Some 3\<rparr>,
         blank_entry\<lparr>model := ''gpt'', user_initiated_interaction_count := Some 1\<rparr>]\<rparr>,
      blank_daily\<lparr>day := ''2026-01-02'', totals_by_model_feature := Some
        [blank_entry\<lparr>model := ''Other'', user_initiated_interaction_count := Some 5\<rparr>]\<rparr>]"

section \<open>Properties\<close>

subsection \<open>The comparator sort\<close>

lemma js_insert_desc: "js_insert (\<lambda>a b. key b - key a) x ys = insort_key (\<lambda>a. - key a) x ys"
  by (induction ys) auto

lemma js_sort_desc: "js_sort (\<lambda>a b. key b - key a) xs = sort_key (\<lambda>a. - key a) xs"
proof -
  have "js_insert (\<lambda>a b. key b - key a) = insort_key (\<lambda>a. - key a)"
    by (intro ext) (rule js_insert_desc)
  then show ?thesis
    by (simp add: js_sort_def sort_key_def)
qed


lemma js_sort_desc_length: "length (js_sort (\<lambda>a b. key b - key a) xs) = length xs"
  by (simp add: js_sort_desc)






subsection \<open>Top-N conservation and stability\<close>




subsection \<open>The two language aggregations\<close>










subsection \<open>The rolling average of daily active users\<close>

lemma js_Set_gen:
  "distinct acc \<Longrightarrow>
   distinct (foldl (\<lambda>seen x. if x \<in> set seen then seen else seen @ [x]) acc xs)
   \<and> set (foldl (\<lambda>seen x. if x \<in> set seen then seen else seen @ [x]) acc xs) = set acc \<union> set xs"
  by (induction xs arbitrary: acc) auto

lemma distinct_js_Set: "distinct (js_Set xs)"
  using js_Set_gen [of "[]" xs] by (simp add: js_Set_def)

lemma set_js_Set: "set (js_Set xs) = set xs"
  using js_Set_gen [of "[]" xs] by (simp add: js_Set_def)

lemma getSortedDays_props:
  "sorted (getSortedDays records) \<and> distinct (getSortedDays records)
   \<and> set (getSortedDays records) = day ` set records"
  by (simp add: getSortedDays_def distinct_js_Set set_js_Set)










text \<open>
  With one record per day, the values the window averages are the values of the raw
  daily series \<^verbatim>\<open>aggregateDailyActiveUsers\<close>.
\<close>

lemma dauByDay_other_day:
  "d \<notin> day ` set records \<Longrightarrow>
   foldl (\<lambda>m r. m(day r \<mapsto> or_zero (daily_active_users r))) m records d = m d"
  by (induction records arbitrary: m) auto

lemma dauByDay_find:
  assumes "distinct (map day records)" and "d \<in> day ` set records"
  shows "foldl (\<lambda>m r. m(day r \<mapsto> or_zero (daily_active_users r))) m records d
       = map_option (\<lambda>r. or_zero (daily_active_users r)) (find_day records d)"
  using assms
proof (induction records arbitrary: m)
  case Nil
  then show ?case by simp
next
  case (Cons r records)
  show ?case
  proof (cases "day r = d")
    case True
    with Cons.prems(1) have "d \<notin> day ` set records"
      by auto
    then have "foldl (\<lambda>m r. m(day r \<mapsto> or_zero (daily_active_users r)))
          (m(day r \<mapsto> or_zero (daily_active_users r))) records d
        = (m(day r \<mapsto> or_zero (daily_active_users r))) d"
      by (rule dauByDay_other_day)
    also have "\<dots> = Some (or_zero (daily_active_users r))"
      using True by simp
    finally have "foldl (\<lambda>m r. m(day r \<mapsto> or_zero (daily_active_users r))) m (r # records) d
        = Some (or_zero (daily_active_users r))"
      by (simp only: foldl_Cons)
    moreover have "find_day (r # records) d = Some r"
      using True by (simp add: find_day_def)
    ultimately show ?thesis
      by (simp only: option.map)
  next
    case False
    with Cons.prems have "distinct (map day records)" and "d \<in> day ` set records"
      by auto
    from Cons.IH [OF this] False show ?thesis
      by (simp add: find_day_def)
  qed
qed

lemma daily_series_values:
  assumes "distinct (map day records)"
  shows "map users (aggregateDailyActiveUsers records) = map (dau_of records) (getSortedDays records)"
proof -
  have "(case find_day records d of Some rec \<Rightarrow> or_zero (daily_active_users rec) | None \<Rightarrow> 0)
      = dau_of records d" if "d \<in> set (getSortedDays records)" for d
  proof -
    from that have "d \<in> day ` set records"
      by (simp add: getSortedDays_props)
    with assms have "dauByDay records d
        = map_option (\<lambda>r. or_zero (daily_active_users r)) (find_day records d)"
      unfolding dauByDay_def by (rule dauByDay_find)
    then show ?thesis
      by (simp add: dau_of_def or_zero_def split: option.splits)
  qed
  then show ?thesis
    by (simp add: aggregateDailyActiveUsers_def comp_def)
qed

subsection \<open>Percentage series: dictionaries\<close>









subsection \<open>Counts of a day\<close>



subsection \<open>Records of a day\<close>



subsection \<open>Top categories\<close>




subsection \<open>Series\<close>




subsection \<open>Rounding\<close>















text \<open>
  A category named \<^verbatim>\<open>Other\<close> shares the series of the remainder bucket, which then gets
  two values per day: the shares of the second day no longer sit at index 1.
\<close>

lemma other_named_model:
  "pd_series (aggregateModelUsagePerDay other_model) = [(''Other'', [75, 75, 100, 100]), (''gpt'', [25, 0])]
   \<and> sum_list (dayShares (aggregateModelUsagePerDay other_model) 1) = 75"
  by (simp add: dayShares_def aggregateModelUsagePerDay_def usagePerDay_def getRecordsByDay_def
      getSortedDays_def js_Set_def topCategories_def categoryTotals_def entries_def or_empty_def
      or_zero_def js_sort_def dayCounts_def dict_set_def share_def Math_round_div_def
      other_model_def blank_daily_def blank_entry_def)

subsection \<open>Loads in flight\<close>

lemma ensureData_step_shared:
  assumes "length (running s) \<le> 1" and "dataLoading s = None \<longrightarrow> running s = []"
    and "ev \<noteq> RefreshData"
  shows "length (running (mcp_step s ev)) \<le> 1
    \<and> (dataLoading (mcp_step s ev) = None \<longrightarrow> running (mcp_step s ev) = [])"
proof (cases ev)
  case EnsureData
  with assms show ?thesis by (simp add: loadAllData_call_def)
next
  case RefreshData
  with assms show ?thesis by simp
next
  case (LoadResolved p)
  have "length (removeAll p (running s)) \<le> length (running s)"
    by simp
  with assms(1) have "length (removeAll p (running s)) \<le> 1"
    by linarith
  moreover have "running s = [] \<Longrightarrow> removeAll p (running s) = []"
    by simp
  ultimately show ?thesis
    using assms(2) LoadResolved by auto
next
  case (LoadRejected p)
  have "length (removeAll p (running s)) \<le> length (running s)"
    by simp
  with assms(1) have "length (removeAll p (running s)) \<le> 1"
    by linarith
  moreover have "running s = [] \<Longrightarrow> removeAll p (running s) = []"
    by simp
  ultimately show ?thesis
    using assms(2) LoadRejected by auto
qed

lemma ensureData_run_shared:
  assumes "length (running s) \<le> 1" and "dataLoading s = None \<longrightarrow> running s = []"
    and "RefreshData \<notin> set evs"
  shows "length (running (foldl mcp_step s evs)) \<le> 1"
  using assms
proof (induction evs arbitrary: s)
  case Nil
  then show ?case by simp
next
  case (Cons ev evs)
  from Cons.prems have "ev \<noteq> RefreshData" and rest: "RefreshData \<notin> set evs"
    by auto
  with Cons.prems(1,2) have step:
    "length (running (mcp_step s ev)) \<le> 1
     \<and> (dataLoading (mcp_step s ev) = None \<longrightarrow> running (mcp_step s ev) = [])"
    by (intro ensureData_step_shared)
  have "length (running (foldl mcp_step (mcp_step s ev) evs)) \<le> 1"
    using step rest by (intro Cons.IH) simp_all
  then show ?case
    by simp
qed

lemma ensureData_only_one_load:
  "RefreshData \<notin> set evs \<Longrightarrow> length (running (mcp_run evs)) \<le> 1"
  unfolding mcp_run_def by (rule ensureData_run_shared) (simp_all add: mcp_init_def)

text \<open>
  C10 fails on the code. A \<^verbatim>\<open>refresh_data\<close> request that arrives while a load is running
  starts a second load, whether the first came from \<^verbatim>\<open>refresh_data\<close> or from
  \<^verbatim>\<open>ensureData\<close>; \<^verbatim>\<open>ensureData\<close> starts a second load while a refresh is running; two
  \<^verbatim>\<open>POST /api/refresh\<close> requests run two loads. Only \<^verbatim>\<open>ensureData\<close> after \<^verbatim>\<open>ensureData\<close>
  attaches to the load in flight.
\<close>

theorem refresh_starts_second_load:
  "running (mcp_run [RefreshData, RefreshData]) = [0, 1]
   \<and> running (mcp_run [EnsureData, RefreshData]) = [0, 1]
   \<and> running (mcp_run [RefreshData, EnsureData]) = [0, 1]
   \<and> running (mcp_run [EnsureData, EnsureData]) = [0]
   \<and> fst (api_run [ApiRefresh, ApiRefresh]) = [0, 1]"
  by (simp add: mcp_run_def mcp_init_def loadAllData_call_def api_run_def)


subsection \<open>The query handler\<close>

lemmas prompt_eval = toLowerCase_def lower_char_def upper_letters_def lower_letters_def
  isReport_def word_at_def word_boundary_def is_word_def is_line_terminator_def

text \<open>
  C1 fails on the code. With one IDE entry in the collection, a prompt that reaches the
  IDE branch makes the handler throw: the branch formats \<^verbatim>\<open>i.users\<close>, a property the rows
  of \<^verbatim>\<open>aggregateByIDE\<close> do not have.
\<close>

theorem handleQuery_ide_throws:
  "handleQuery one_ide ''ide'' = Inl TypeError
   \<and> handleQuery one_ide ''Which IDE is used most?'' = Inl TypeError"
  by (simp add: handleQuery_def prompt_eval ideResponse_def aggregateByIDE_def usageTotals_def
      entries_def or_empty_def or_zero_def js_sort_def one_ide_def blank_daily_def blank_entry_def
      table_row_def ide_users_def and_then_def)

text \<open>
  C2 fails on the code for the second prompt. For every collection, \<^verbatim>\<open>@alice usage\<close> gets
  a response that says no data was found, with no chart; \<^verbatim>\<open>top 10 users\<close> gets a table
  header with no rows and no notice, and a bar chart object with no labels.
\<close>

theorem handleQuery_per_user:
  "handleQuery records ''@alice usage''
     = Inr \<lparr>markdown = ''No data found for user **@alice**.'', chartData = None, chartsData = None\<rparr>
   \<and> handleQuery records ''top 10 users''
     = Inr \<lparr>markdown = ''# Top 10 Users by Interactions\<newline>\<newline>| Rank | User | Interactions | Code Generated | LOC Added | Days Active |\<newline>|------|------|-------------|----------------|-----------|-------------|'',
            chartData = Some \<lparr>c_title = None, c_type = ''bar'', c_stacked = False, c_labels = [],
                              c_datasets = [\<lparr>ds_label = ''Interactions'', ds_data = []\<rparr>]\<rparr>,
            chartsData = None\<rparr>"
  by (simp add: handleQuery_def prompt_eval userResponse_def getUserData_def topUsersResponse_def
      aggregateTopUsers_def is_space_def is_digit_def parseInt_def digit_value_def dec.simps
      and_then_def join_def int_data_def)

lemma empty_blocks:
  "\<exists>r. copilotUsageReport [] = Inr r" "\<exists>r. codeGenerationReport [] = Inr r"
  "\<exists>r. executiveSummaryReport [] = Inr r"
  by (simp_all add: copilotUsageReport_def codeGenerationReport_def executiveSummaryReport_def
      Let_def and_then_def table_row_def)

text \<open>
  C7 fails on the code in its last part. On an empty collection the field sums are 0 and
  the categorical aggregations and day series are empty, but the report compilation
  throws a TypeError: after the first three reports, the usage-trends block reduces the
  empty list of trends without an initial value.
\<close>

theorem empty_window:
  "sumField field [] = 0 \<and> aggregateByFeature [] = [] \<and> aggregateByDay [] = []
   \<and> aggregateByLanguage [] = [] \<and> aggregateByModel [] = [] \<and> aggregateByIDE [] = []
   \<and> getSortedDays [] = [] \<and> aggregateDailyActiveUsers [] = []
   \<and> aggregateWeeklyActiveUsers [] = []
   \<and> usageTrendsReport [] = Inl TypeError
   \<and> snd (generateReports [] preGeneratedReports) = Some TypeError"
proof -
  obtain r1 r2 r3 where "copilotUsageReport [] = Inr r1" "codeGenerationReport [] = Inr r2"
    "executiveSummaryReport [] = Inr r3"
    using empty_blocks by blast
  moreover have t: "usageTrendsReport [] = Inl TypeError"
    by (simp add: usageTrendsReport_def aggregateByDay_def js_sort_def getDateRange_def
        Math_max_def and_then_def)
  ultimately have "snd (generateReports [] preGeneratedReports) = Some TypeError"
    by (simp add: generateReports_def)
  with t show ?thesis
    by (simp add: sumField_def aggregateByFeature_def aggregateByDay_def aggregateByLanguage_def
      aggregateByLanguage_langs_def aggregateByModel_def aggregateByIDE_def usageTotals_def
      getSortedDays_def js_Set_def aggregateDailyActiveUsers_def aggregateWeeklyActiveUsers_def
      entries_def js_sort_def)
qed

lemma map_throwing_total:
  assumes "\<And>x. \<exists>y. f x = Inr y"
  shows "\<exists>ys. map_throwing f xs = Inr ys"
proof (induction xs)
  case Nil
  show ?case by simp
next
  case (Cons x xs)
  from assms obtain y where "f x = Inr y" by blast
  moreover from Cons.IH obtain ys where "map_throwing f xs = Inr ys" by blast
  ultimately show ?case by (simp add: and_then_def)
qed

lemma join_prefix: "prefix y (join sep (y # ys))"
proof -
  have "prefix y a \<Longrightarrow> prefix y (foldl (\<lambda>s x. s @ sep @ x) a ys)" for a
  proof (induction ys arbitrary: a)
    case Nil
    then show ?case by simp
  next
    case (Cons x xs)
    from Cons.prems have "prefix y (a @ sep @ x)"
      by (rule prefix_prefix)
    then show ?case
      by (simp add: Cons.IH)
  qed
  then show ?thesis by (simp add: join_def)
qed

text \<open>
  C6. For every collection, a prompt that matches the report pattern and contains a
  language keyword (\<^verbatim>\<open>language\<close> or \<^verbatim>\<open>lang\<close>) and the model keyword gets the language
  report: a normal return whose markdown starts with the title of the language report,
  with the four language charts.
\<close>

theorem report_language_first:
  assumes "isReport prompt"
    and "str_includes (toLowerCase prompt) ''language'' \<or> str_includes (toLowerCase prompt) ''lang''"
    and "str_includes (toLowerCase prompt) ''model''"
  shows "handleQuery records prompt = languageReport records
    \<and> (\<exists>r. languageReport records = Inr r
          \<and> prefix ''# Language Adoption Report'' (markdown r)
          \<and> chartData r = None
          \<and> map_option (map c_title) (chartsData r)
              = Some [Some ''Language Distribution'', Some ''Language Usage Trend (%)'',
                      Some ''User-Initiated LOC by Language'', Some ''Agent-Initiated LOC by Language''])"
proof -
  have route: "handleQuery records prompt = languageReport records"
    using assms(1,2) by (simp add: handleQuery_def Let_def)
  let ?langDist = "aggregateLanguageDistribution records"
  let ?row = "\<lambda>l.
      let tot = foldl (\<lambda>s x. s + snd x) 0 ?langDist
      in and_then (fmt (IntNum (snd l))) (\<lambda>c.
           Inr (''| '' @ fst l @ '' | '' @ c @ '' | '' @ percent1 (snd l) tot @ ''% |''))"
  have "\<exists>y. ?row l = Inr y" for l
    by (simp add: and_then_def Let_def)
  then obtain rows where rows: "map_throwing ?row (take 10 ?langDist) = Inr rows"
    using map_throwing_total [of ?row "take 10 ?langDist"] by blast
  have "\<exists>r. languageReport records = Inr r
          \<and> prefix ''# Language Adoption Report'' (markdown r)
          \<and> chartData r = None
          \<and> map_option (map c_title) (chartsData r)
              = Some [Some ''Language Distribution'', Some ''Language Usage Trend (%)'',
                      Some ''User-Initiated LOC by Language'', Some ''Agent-Initiated LOC by Language'']"
    unfolding languageReport_def Let_def
    using rows [unfolded Let_def] by (simp add: and_then_def join_prefix)
  with route show ?thesis by blast
qed

theorem report_language_first_witness:
  "isReport ''generate a language and model report''
   \<and> str_includes (toLowerCase ''generate a language and model report'') ''language''
   \<and> str_includes (toLowerCase ''generate a language and model report'') ''model''
   \<and> handleQuery sixteen_languages ''generate a language and model report''
       = languageReport sixteen_languages"
proof -
  have r: "isReport ''generate a language and model report''"
    by (simp add: prompt_eval)
  have l: "str_includes (toLowerCase ''generate a language and model report'') ''language''"
    by (simp add: prompt_eval)
  have m: "str_includes (toLowerCase ''generate a language and model report'') ''model''"
    by (simp add: prompt_eval)
  from l have l': "str_includes (toLowerCase ''generate a language and model report'') ''language''
      \<or> str_includes (toLowerCase ''generate a language and model report'') ''lang''"
    by blast
  from report_language_first [OF r l' m, of sixteen_languages] r l m show ?thesis
    by blast
qed

end
